theory Spec2Isabelle
  imports Main "HOL-Library.Option_ord"
begin

section \<open>The chat backend of \<^verbatim>\<open>app/backend/server.py\<close>\<close>

text \<open>
  The server keeps three document collections (\<^verbatim>\<open>db.files\<close>, \<^verbatim>\<open>db.sessions\<close>,
  \<^verbatim>\<open>db.messages\<close>), reads the wall clock with \<^verbatim>\<open>datetime.now(timezone.utc)\<close>, draws
  identifiers with \<^verbatim>\<open>uuid.uuid4()\<close> and calls one external text-completion service.
  Every handler is a function from the state of that world to a result and the next state.
  Requests are handled one at a time; a collection operation does not fail.
\<close>

subsection \<open>Time\<close>

text \<open>
  A \<^verbatim>\<open>datetime\<close> is the instant it denotes, counted in microseconds. The collections hold
  the text \<^verbatim>\<open>isoformat()\<close> gives; \<open>Iso t\<close> is the text of the instant \<open>t\<close>. All texts the
  server writes are those of aware UTC datetimes, whose order as strings is the order of
  their instants, which is the order \<open>iso_rank\<close> hands to the collection's sort.
\<close>

type_synonym datetime = int

datatype iso = Iso datetime

fun isoformat :: "datetime \<Rightarrow> iso" where
  "isoformat t = Iso t"

fun fromisoformat :: "iso \<Rightarrow> datetime" where
  "fromisoformat (Iso t) = t"

fun iso_rank :: "iso \<Rightarrow> int" where
  "iso_rank (Iso t) = t"

subsection \<open>Models and documents\<close>

text \<open>
  \<^verbatim>\<open>class Message(BaseModel)\<close>, with the timestamp a \<^verbatim>\<open>datetime\<close> in the model and an
  ISO text in the stored document.
\<close>

record 't Message =
  msg_id :: string
  msg_session_id :: string
  role :: string
  content :: string
  timestamp :: 't
  msg_files :: "string list option"

record ChatRequest =
  req_message :: string
  req_session_id :: string
  req_files :: "string list option"

text \<open>
  \<^verbatim>\<open>class ChatSession(BaseModel)\<close>. A stored session written by the upsert of
  \<^verbatim>\<open>chat_stream\<close> has only \<^verbatim>\<open>id\<close> and \<^verbatim>\<open>updated_at\<close>, and \<^verbatim>\<open>get_sessions\<close> reads all three
  other keys as possibly absent, so they are optional in a document.
\<close>

record 't ChatSession =
  sess_id :: string
  title :: "string option"
  created_at :: "'t option"
  updated_at :: "'t option"

text \<open>
  The record above is a session as a dictionary, the form the handlers pass around. A
  validated \<^verbatim>\<open>ChatSession\<close> instance, which is what a route with
  \<^verbatim>\<open>response_model=ChatSession\<close> or \<^verbatim>\<open>List[ChatSession]\<close> serves, has all four fields.
\<close>

record ChatSessionModel =
  model_id :: string
  model_title :: string
  model_created_at :: datetime
  model_updated_at :: datetime

text \<open>The metadata \<^verbatim>\<open>upload_file\<close> stores for a file.\<close>

record file_doc =
  file_id :: string
  filename :: string
  path :: string
  content_type :: string
  file_size :: nat
  uploaded_at :: iso

text \<open>The values handed to the completion service.\<close>

record FileContentWithMimeType =
  file_path :: string
  mime_type :: string

record UserMessage =
  um_text :: string
  um_file_contents :: "FileContentWithMimeType list option"

record LlmChat =
  api_key :: string
  chat_session_id :: string
  system_message :: string
  provider :: string
  model_name :: string

text \<open>
  \<^verbatim>\<open>chat.send_message\<close> returns the completion text or raises; a raised exception is
  kept as the text \<^verbatim>\<open>str(e)\<close> of it.
\<close>

datatype llm_result = Completion string | Raises string

type_synonym llm = "LlmChat \<Rightarrow> UserMessage \<Rightarrow> llm_result"

text \<open>
  An \<^verbatim>\<open>HTTPException\<close> with its status code and detail. The detail of the exception the
  endpoint boundary raises is \<^verbatim>\<open>str(e)\<close> of the exception it caught. A returned value
  that the route's \<^verbatim>\<open>response_model\<close> refuses is a \<^verbatim>\<open>ResponseValidationError\<close>, which the
  framework answers with status 500.
\<close>

datatype exn = HTTPException nat detail | ResponseValidationError
and detail = Text string | Str exn

fun status_code :: "exn \<Rightarrow> nat" where
  "status_code (HTTPException c d) = c"
| "status_code ResponseValidationError = 500"

text \<open>
  A frame of the event stream, \<^verbatim>\<open>f"data: {json.dumps(d)}\n\n"\<close>, as the dictionary \<open>d\<close>
  it carries, in the order of its keys.
\<close>

datatype json = JString string | JBool bool

datatype frame = Data "(string \<times> json) list"

subsection \<open>The world\<close>

text \<open>
  \<open>clock\<close> gives the successive readings of \<^verbatim>\<open>datetime.now(timezone.utc)\<close> and
  \<open>uuid_source\<close> the successive results of \<^verbatim>\<open>uuid.uuid4()\<close>; the counters say how many have
  been taken.
\<close>

record world =
  db_files :: "file_doc list"
  db_sessions :: "iso ChatSession list"
  db_messages :: "iso Message list"
  clock :: "nat \<Rightarrow> datetime"
  clock_reads :: nat
  uuid_source :: "nat \<Rightarrow> string"
  uuid_draws :: nat

type_synonym env = "string \<rightharpoonup> string"

definition now_utc :: "world \<Rightarrow> datetime \<times> world" where
  "now_utc w = (clock w (clock_reads w), w\<lparr>clock_reads := Suc (clock_reads w)\<rparr>)"

definition uuid4 :: "world \<Rightarrow> string \<times> world" where
  "uuid4 w = (uuid_source w (uuid_draws w), w\<lparr>uuid_draws := Suc (uuid_draws w)\<rparr>)"

subsection \<open>The collection operations the handlers use\<close>

text \<open>
  A collection is the list of its documents in insertion order. A query
  \<^verbatim>\<open>{"key": v}\<close> is the predicate it denotes.
\<close>

definition insert_one :: "'a \<Rightarrow> 'a list \<Rightarrow> 'a list" where
  "insert_one d coll = coll @ [d]"

definition find_one :: "('a \<Rightarrow> bool) \<Rightarrow> 'a list \<Rightarrow> 'a option" where
  "find_one q coll = List.find q coll"

fun delete_one :: "('a \<Rightarrow> bool) \<Rightarrow> 'a list \<Rightarrow> 'a list" where
  "delete_one q [] = []"
| "delete_one q (d # coll) = (if q d then coll else d # delete_one q coll)"

definition delete_many :: "('a \<Rightarrow> bool) \<Rightarrow> 'a list \<Rightarrow> 'a list" where
  "delete_many q coll = filter (\<lambda>d. \<not> q d) coll"

text \<open>
  \<^verbatim>\<open>update_one(q, {"$set": ...}, upsert=True)\<close>: the first document that matches is
  updated by \<open>upd\<close>; when none matches, the document \<open>fresh\<close> (the query's equalities
  and the fields set) is inserted.
\<close>

fun update_first :: "('a \<Rightarrow> bool) \<Rightarrow> ('a \<Rightarrow> 'a) \<Rightarrow> 'a list \<Rightarrow> 'a list" where
  "update_first q upd [] = []"
| "update_first q upd (d # coll) = (if q d then upd d # coll else d # update_first q upd coll)"

definition update_one_upsert :: "('a \<Rightarrow> bool) \<Rightarrow> ('a \<Rightarrow> 'a) \<Rightarrow> 'a \<Rightarrow> 'a list \<Rightarrow> 'a list" where
  "update_one_upsert q upd fresh coll =
     (if find_one q coll = None then insert_one fresh coll else update_first q upd coll)"

text \<open>
  \<^verbatim>\<open>find(q).sort(key, 1).to_list(n)\<close> and \<^verbatim>\<open>find(q).sort(key, -1).to_list(n)\<close>. A document
  without the key sorts as the least value, which is \<open>None\<close> in the order on options.
  The store promises no order among documents with equal keys; the model keeps the
  insertion order when ascending and its reverse when descending.
\<close>

definition find_sort_asc :: "('a \<Rightarrow> bool) \<Rightarrow> ('a \<Rightarrow> 'k::linorder) \<Rightarrow> nat \<Rightarrow> 'a list \<Rightarrow> 'a list" where
  "find_sort_asc q key n coll = take n (sort_key key (filter q coll))"

definition find_sort_desc :: "('a \<Rightarrow> bool) \<Rightarrow> ('a \<Rightarrow> 'k::linorder) \<Rightarrow> nat \<Rightarrow> 'a list \<Rightarrow> 'a list" where
  "find_sort_desc q key n coll = take n (rev (sort_key key (filter q coll)))"

subsection \<open>\<^verbatim>\<open>prepare_for_mongo\<close> and \<^verbatim>\<open>parse_from_mongo\<close>\<close>

definition prepare_for_mongo :: "datetime Message \<Rightarrow> iso Message" where
  "prepare_for_mongo m =
     \<lparr>msg_id = msg_id m, msg_session_id = msg_session_id m, role = role m, content = content m,
      timestamp = isoformat (timestamp m), msg_files = msg_files m\<rparr>"

definition parse_from_mongo :: "iso Message \<Rightarrow> datetime Message" where
  "parse_from_mongo m =
     \<lparr>msg_id = msg_id m, msg_session_id = msg_session_id m, role = role m, content = content m,
      timestamp = fromisoformat (timestamp m), msg_files = msg_files m\<rparr>"

definition prepare_session_for_mongo :: "datetime ChatSession \<Rightarrow> iso ChatSession" where
  "prepare_session_for_mongo s =
     \<lparr>sess_id = sess_id s, title = title s,
      created_at = map_option isoformat (created_at s),
      updated_at = map_option isoformat (updated_at s)\<rparr>"

definition parse_session_from_mongo :: "iso ChatSession \<Rightarrow> datetime ChatSession" where
  "parse_session_from_mongo s =
     \<lparr>sess_id = sess_id s, title = title s,
      created_at = map_option fromisoformat (created_at s),
      updated_at = map_option fromisoformat (updated_at s)\<rparr>"

subsection \<open>Process start\<close>

text \<open>
  The module reads \<^verbatim>\<open>os.environ['MONGO_URL']\<close> and \<^verbatim>\<open>os.environ['DB_NAME']\<close> when it is
  loaded (a missing key raises \<^verbatim>\<open>KeyError\<close>) and \<^verbatim>\<open>CORS_ORIGINS\<close> with the default
  \<^verbatim>\<open>'*'\<close>, split at commas. The driver refuses some connection strings when the client
  is made and some database names when the database is taken from the client; which ones
  it accepts is given by \<open>uri_ok\<close> and \<open>name_ok\<close>.
\<close>

datatype startup_error = KeyError string | InvalidURI string | InvalidName string

record app_config =
  mongo_url :: string
  db_name :: string
  allow_origins :: "string list"

fun split_at :: "char \<Rightarrow> string \<Rightarrow> string \<Rightarrow> string list" where
  "split_at sep cur [] = [cur]"
| "split_at sep cur (c # cs) =
     (if c = sep then cur # split_at sep [] cs else split_at sep (cur @ [c]) cs)"

definition startup ::
  "(string \<Rightarrow> bool) \<Rightarrow> (string \<Rightarrow> bool) \<Rightarrow> env \<Rightarrow> startup_error + app_config" where
  "startup uri_ok name_ok environ =
     (case environ ''MONGO_URL'' of
        None \<Rightarrow> Inl (KeyError ''MONGO_URL'')
      | Some url \<Rightarrow>
          if \<not> uri_ok url then Inl (InvalidURI url)
          else
            (case environ ''DB_NAME'' of
               None \<Rightarrow> Inl (KeyError ''DB_NAME'')
             | Some name \<Rightarrow>
                 if \<not> name_ok name then Inl (InvalidName name)
                 else
                   Inr \<lparr>mongo_url = url, db_name = name,
                        allow_origins =
                          split_at CHR '','' []
                            (case environ ''CORS_ORIGINS'' of None \<Rightarrow> ''*'' | Some v \<Rightarrow> v)\<rparr>))"

subsection \<open>\<^verbatim>\<open>POST /chat/stream\<close>\<close>

text \<open>
  \<^verbatim>\<open>Message(session_id=..., role=..., content=..., files=...)\<close>: the identifier and the
  timestamp come from the default factories, in the order of the fields.
\<close>

definition new_Message ::
  "string \<Rightarrow> string \<Rightarrow> string \<Rightarrow> string list option \<Rightarrow> world \<Rightarrow> datetime Message \<times> world" where
  "new_Message sid r c fs w =
     (case uuid4 w of (i, w1) \<Rightarrow>
      case now_utc w1 of (t, w2) \<Rightarrow>
        (\<lparr>msg_id = i, msg_session_id = sid, role = r, content = c, timestamp = t,
          msg_files = fs\<rparr>, w2))"

text \<open>
  The loop over \<^verbatim>\<open>request.files\<close>: a file id with no document in \<^verbatim>\<open>db.files\<close> adds
  nothing to \<^verbatim>\<open>file_contents\<close>.
\<close>

fun resolve_files ::
  "FileContentWithMimeType list \<Rightarrow> string list \<Rightarrow> file_doc list \<Rightarrow> FileContentWithMimeType list" where
  "resolve_files file_contents [] coll = file_contents"
| "resolve_files file_contents (fid # ids) coll =
     (case find_one (\<lambda>d. file_id d = fid) coll of
        None \<Rightarrow> resolve_files file_contents ids coll
      | Some file_doc \<Rightarrow>
          resolve_files
            (file_contents @ [\<lparr>file_path = path file_doc, mime_type = content_type file_doc\<rparr>])
            ids coll)"

definition prepare_attachments :: "string list option \<Rightarrow> file_doc list \<Rightarrow> FileContentWithMimeType list" where
  "prepare_attachments fs coll =
     (case fs of None \<Rightarrow> [] | Some ids \<Rightarrow> if ids = [] then [] else resolve_files [] ids coll)"

definition the_system_message :: string where
  "the_system_message =
     ''You are a helpful AI assistant. You can analyze documents, images, code, and more. '' @
     ''When generating code, use markdown format with appropriate language tags. '' @
     ''When generating HTML code, make sure it'' @ [CHR 0x27] @ ''s complete and functional.''"

definition new_chat :: "string \<Rightarrow> string \<Rightarrow> LlmChat" where
  "new_chat key sid =
     \<lparr>api_key = key, chat_session_id = sid, system_message = the_system_message,
      provider = ''gemini'', model_name = ''gemini-2.0-flash''\<rparr>"

definition new_user_msg :: "string \<Rightarrow> FileContentWithMimeType list \<Rightarrow> UserMessage" where
  "new_user_msg txt file_contents =
     \<lparr>um_text = txt,
      um_file_contents = (if file_contents = [] then None else Some file_contents)\<rparr>"

text \<open>
  The generator \<^verbatim>\<open>generate()\<close> of the streaming response, run to its end: the frames it
  yields and the world it leaves.
\<close>

definition generate :: "llm \<Rightarrow> LlmChat \<Rightarrow> UserMessage \<Rightarrow> ChatRequest \<Rightarrow> world \<Rightarrow> frame list \<times> world" where
  "generate send_message chat user_msg request w =
     (case send_message chat user_msg of
        Raises e \<Rightarrow> ([Data [(''error'', JString e)]], w)
      | Completion response \<Rightarrow>
          (case new_Message (req_session_id request) ''assistant'' response None w of
             (assistant_message, w1) \<Rightarrow>
               ([Data [(''content'', JString response), (''done'', JBool True)]],
                w1\<lparr>db_messages :=
                     insert_one (prepare_for_mongo assistant_message) (db_messages w1)\<rparr>)))"

definition api_key_not_configured :: exn where
  "api_key_not_configured =
     HTTPException 500 (Str (HTTPException 500 (Text ''API key not configured'')))"

definition touch_session :: "string \<Rightarrow> iso \<Rightarrow> iso ChatSession list \<Rightarrow> iso ChatSession list" where
  "touch_session sid stamp coll =
     update_one_upsert (\<lambda>s. sess_id s = sid) (\<lambda>s. s\<lparr>updated_at := Some stamp\<rparr>)
       \<lparr>sess_id = sid, title = None, created_at = None, updated_at = Some stamp\<rparr> coll"

definition chat_stream :: "env \<Rightarrow> llm \<Rightarrow> ChatRequest \<Rightarrow> world \<Rightarrow> (exn + frame list) \<times> world" where
  "chat_stream environ send_message request w =
     (case environ ''EMERGENT_LLM_KEY'' of
        None \<Rightarrow> (Inl api_key_not_configured, w)
      | Some key \<Rightarrow>
          if key = [] then (Inl api_key_not_configured, w)
          else
            (let chat = new_chat key (req_session_id request);
                 file_contents = prepare_attachments (req_files request) (db_files w);
                 user_msg = new_user_msg (req_message request) file_contents
             in
               case new_Message (req_session_id request) ''user'' (req_message request)
                      (req_files request) w of
                 (user_message, w1) \<Rightarrow>
                   (let w2 = w1\<lparr>db_messages :=
                                  insert_one (prepare_for_mongo user_message) (db_messages w1)\<rparr>
                    in
                      case now_utc w2 of
                        (t, w3) \<Rightarrow>
                          (let w4 = w3\<lparr>db_sessions :=
                                         touch_session (req_session_id request) (isoformat t)
                                           (db_sessions w3)\<rparr>
                           in
                             case generate send_message chat user_msg request w4 of
                               (frames, w5) \<Rightarrow> (Inr frames, w5)))))"

subsection \<open>The session endpoints\<close>

text \<open>
  The loop of \<^verbatim>\<open>get_sessions\<close>, \<open>backfill_one\<close> being its body. The default of
  \<^verbatim>\<open>session.get('updated_at', datetime.now(timezone.utc))\<close> is evaluated before the lookup,
  so the clock is read for every session without \<^verbatim>\<open>created_at\<close>.
\<close>

definition backfill_one :: "iso ChatSession \<Rightarrow> world \<Rightarrow> datetime ChatSession \<times> world" where
  "backfill_one doc w =
     (let session = parse_session_from_mongo doc;
          session1 = (if title session = None then session\<lparr>title := Some ''New Chat''\<rparr>
                      else session)
      in
        if created_at session1 = None
        then (case now_utc w of
                (t, w1) \<Rightarrow>
                  (session1\<lparr>created_at :=
                              Some (case updated_at session1 of None \<Rightarrow> t | Some u \<Rightarrow> u)\<rparr>,
                   w1))
        else (session1, w))"

fun backfill :: "iso ChatSession list \<Rightarrow> world \<Rightarrow> datetime ChatSession list \<times> world" where
  "backfill [] w = ([], w)"
| "backfill (doc # docs) w =
     (case backfill_one doc w of
        (session, w1) \<Rightarrow>
          (case backfill docs w1 of (out, w2) \<Rightarrow> (session # out, w2)))"

definition get_sessions :: "world \<Rightarrow> (exn + datetime ChatSession list) \<times> world" where
  "get_sessions w =
     (case backfill
             (find_sort_desc (\<lambda>s. True) (\<lambda>s. map_option iso_rank (updated_at s)) 100
                (db_sessions w)) w of
        (sessions, w1) \<Rightarrow> (Inr sessions, w1))"

text \<open>
  \<^verbatim>\<open>@api_router.get("/sessions", response_model=List[ChatSession])\<close>: what the handler
  returns is validated against the model before it is served. \<^verbatim>\<open>title\<close> has no default,
  so a dictionary without it is refused; \<^verbatim>\<open>created_at\<close> and \<^verbatim>\<open>updated_at\<close> have the default
  factory \<^verbatim>\<open>datetime.now(timezone.utc)\<close>, which is called, in the order of the fields, for
  each of the two that the dictionary lacks. Every field and every element is validated
  before the result is an error.
\<close>

definition validate_ChatSession ::
  "datetime ChatSession \<Rightarrow> world \<Rightarrow> (exn + ChatSessionModel) \<times> world" where
  "validate_ChatSession d w =
     (case (case created_at d of Some c \<Rightarrow> (c, w) | None \<Rightarrow> now_utc w) of
        (c, w1) \<Rightarrow>
          (case (case updated_at d of Some u \<Rightarrow> (u, w1) | None \<Rightarrow> now_utc w1) of
             (u, w2) \<Rightarrow>
               ((case title d of
                   None \<Rightarrow> Inl ResponseValidationError
                 | Some t \<Rightarrow>
                     Inr \<lparr>model_id = sess_id d, model_title = t, model_created_at = c,
                          model_updated_at = u\<rparr>),
                w2)))"

fun validate_sessions ::
  "datetime ChatSession list \<Rightarrow> world \<Rightarrow> (exn + ChatSessionModel list) \<times> world" where
  "validate_sessions [] w = (Inr [], w)"
| "validate_sessions (d # ds) w =
     (case validate_ChatSession d w of
        (r, w1) \<Rightarrow>
          (case validate_sessions ds w1 of
             (rs, w2) \<Rightarrow>
               ((case r of
                   Inl e \<Rightarrow> Inl e
                 | Inr m \<Rightarrow> (case rs of Inl e \<Rightarrow> Inl e | Inr ms \<Rightarrow> Inr (m # ms))),
                w2)))"

text \<open>What \<^verbatim>\<open>GET /sessions\<close> serves: the handler's list, validated.\<close>

definition get_sessions_response :: "world \<Rightarrow> (exn + ChatSessionModel list) \<times> world" where
  "get_sessions_response w =
     (case get_sessions w of
        (Inl e, w1) \<Rightarrow> (Inl e, w1)
      | (Inr sessions, w1) \<Rightarrow> validate_sessions sessions w1)"

text \<open>
  \<^verbatim>\<open>ChatSession(title="New Chat")\<close> draws the identifier and reads the clock once for each
  of the two timestamps.
\<close>

definition create_session :: "world \<Rightarrow> (exn + datetime ChatSession) \<times> world" where
  "create_session w =
     (case uuid4 w of (i, w1) \<Rightarrow>
      case now_utc w1 of (c, w2) \<Rightarrow>
      case now_utc w2 of (u, w3) \<Rightarrow>
        (let session = \<lparr>sess_id = i, title = Some ''New Chat'', created_at = Some c,
                         updated_at = Some u\<rparr>
         in (Inr session,
             w3\<lparr>db_sessions :=
                  insert_one (prepare_session_for_mongo session) (db_sessions w3)\<rparr>)))"

text \<open>What \<^verbatim>\<open>POST /sessions\<close> serves (\<^verbatim>\<open>response_model=ChatSession\<close>).\<close>

definition create_session_response :: "world \<Rightarrow> (exn + ChatSessionModel) \<times> world" where
  "create_session_response w =
     (case create_session w of
        (Inl e, w1) \<Rightarrow> (Inl e, w1)
      | (Inr session, w1) \<Rightarrow> validate_ChatSession session w1)"

text \<open>
  \<^verbatim>\<open>get_messages\<close> has \<^verbatim>\<open>response_model=List[Message]\<close>. A message document has every field
  of the model, so the validation returns the handler's list as it is.
\<close>

definition get_messages :: "string \<Rightarrow> world \<Rightarrow> (exn + datetime Message list) \<times> world" where
  "get_messages session_id w =
     (Inr (map parse_from_mongo
             (find_sort_asc (\<lambda>m. msg_session_id m = session_id) (\<lambda>m. iso_rank (timestamp m))
                1000 (db_messages w))), w)"

definition delete_session :: "string \<Rightarrow> world \<Rightarrow> (exn + (string \<times> json) list) \<times> world" where
  "delete_session session_id w =
     (Inr [(''message'', JString ''Session deleted'')],
      w\<lparr>db_sessions := delete_one (\<lambda>s. sess_id s = session_id) (db_sessions w),
        db_messages := delete_many (\<lambda>m. msg_session_id m = session_id) (db_messages w)\<rparr>)"

subsection \<open>The routes\<close>

text \<open>
  The routes of \<^verbatim>\<open>api_router\<close> whose handlers are above, each with the validation of
  its \<^verbatim>\<open>response_model\<close>, and \<^verbatim>\<open>GET /\<close>. The environment is
  the process's \<^verbatim>\<open>os.environ\<close>, which every handler could read; only \<^verbatim>\<open>chat_stream\<close> does.
  \<^verbatim>\<open>POST /upload\<close> writes to the disk and is not part of this development.
\<close>

definition root :: "world \<Rightarrow> (exn + (string \<times> json) list) \<times> world" where
  "root w = (Inr [(''message'', JString ''AI Chatbot API'')], w)"

datatype request =
    GetRoot
  | PostChatStream ChatRequest
  | GetSessions
  | PostSessions
  | GetMessages string
  | DeleteSession string

datatype body =
    Object "(string \<times> json) list"
  | EventStream "frame list"
  | SessionList "ChatSessionModel list"
  | Session ChatSessionModel
  | MessageList "datetime Message list"

fun route :: "env \<Rightarrow> llm \<Rightarrow> request \<Rightarrow> world \<Rightarrow> (exn + body) \<times> world" where
  "route environ send_message GetRoot w =
     (case root w of (r, w1) \<Rightarrow> (map_sum id Object r, w1))"
| "route environ send_message (PostChatStream request) w =
     (case chat_stream environ send_message request w of (r, w1) \<Rightarrow> (map_sum id EventStream r, w1))"
| "route environ send_message GetSessions w =
     (case get_sessions_response w of (r, w1) \<Rightarrow> (map_sum id SessionList r, w1))"
| "route environ send_message PostSessions w =
     (case create_session_response w of (r, w1) \<Rightarrow> (map_sum id Session r, w1))"
| "route environ send_message (GetMessages session_id) w =
     (case get_messages session_id w of (r, w1) \<Rightarrow> (map_sum id MessageList r, w1))"
| "route environ send_message (DeleteSession session_id) w =
     (case delete_session session_id w of (r, w1) \<Rightarrow> (map_sum id Object r, w1))"

subsection \<open>The documents a chat request persists\<close>

text \<open>
  The user message is built from the first identifier and the first clock reading of the
  request, the session is touched at the second reading, and the assistant message takes
  the second identifier and the third reading.
\<close>

definition user_doc :: "ChatRequest \<Rightarrow> world \<Rightarrow> iso Message" where
  "user_doc request w =
     \<lparr>msg_id = uuid_source w (uuid_draws w), msg_session_id = req_session_id request,
      role = ''user'', content = req_message request,
      timestamp = Iso (clock w (clock_reads w)), msg_files = req_files request\<rparr>"

definition assistant_doc :: "ChatRequest \<Rightarrow> string \<Rightarrow> world \<Rightarrow> iso Message" where
  "assistant_doc request response w =
     \<lparr>msg_id = uuid_source w (Suc (uuid_draws w)), msg_session_id = req_session_id request,
      role = ''assistant'', content = response,
      timestamp = Iso (clock w (Suc (Suc (clock_reads w)))), msg_files = None\<rparr>"

definition after_user_message :: "ChatRequest \<Rightarrow> world \<Rightarrow> world" where
  "after_user_message request w =
     w\<lparr>uuid_draws := Suc (uuid_draws w),
       db_messages := db_messages w @ [user_doc request w],
       clock_reads := Suc (Suc (clock_reads w)),
       db_sessions := touch_session (req_session_id request)
                        (Iso (clock w (Suc (clock_reads w)))) (db_sessions w)\<rparr>"

subsection \<open>A small world to run the handlers in\<close>

definition demo_world :: world where
  "demo_world =
     \<lparr>db_files = [], db_sessions = [], db_messages = [],
      clock = (\<lambda>n. 1000 + int n), clock_reads = 0,
      uuid_source = (\<lambda>n. replicate (Suc n) CHR ''u''), uuid_draws = 0\<rparr>"

definition demo_env :: env where
  "demo_env = [''MONGO_URL'' \<mapsto> ''mongodb://localhost'', ''DB_NAME'' \<mapsto> ''chat'',
               ''EMERGENT_LLM_KEY'' \<mapsto> ''secret'']"

definition demo_request :: "string list option \<Rightarrow> ChatRequest" where
  "demo_request fs = \<lparr>req_message = ''hello'', req_session_id = ''u'', req_files = fs\<rparr>"

definition demo_llm :: "llm_result \<Rightarrow> llm" where
  "demo_llm r = (\<lambda>chat user_msg. r)"

definition demo_store :: world where
  "demo_store =
     demo_world
       \<lparr>db_files :=
          [\<lparr>file_id = ''f1'', filename = ''notes.txt'', path = ''uploads/f1.txt'',
            content_type = ''text/plain'', file_size = 3, uploaded_at = Iso 10\<rparr>],
        db_sessions :=
          [\<lparr>sess_id = ''s1'', title = Some ''First'', created_at = Some (Iso 100),
            updated_at = Some (Iso 200)\<rparr>,
           \<lparr>sess_id = ''s2'', title = None, created_at = None, updated_at = Some (Iso 300)\<rparr>,
           \<lparr>sess_id = ''s3'', title = None, created_at = None, updated_at = None\<rparr>],
        db_messages :=
          [\<lparr>msg_id = ''m1'', msg_session_id = ''s1'', role = ''user'', content = ''later'',
            timestamp = Iso 250, msg_files = None\<rparr>,
           \<lparr>msg_id = ''m2'', msg_session_id = ''s2'', role = ''user'', content = ''other'',
            timestamp = Iso 300, msg_files = None\<rparr>,
           \<lparr>msg_id = ''m3'', msg_session_id = ''s1'', role = ''user'', content = ''earlier'',
            timestamp = Iso 150, msg_files = None\<rparr>]\<rparr>"

text \<open>
  A completion service that answers with the paths of the attachments it is given, a world
  whose clock is set back between readings, and a store whose sessions all have
  \<^verbatim>\<open>updated_at\<close>.
\<close>

definition demo_echo_llm :: llm where
  "demo_echo_llm =
     (\<lambda>chat user_msg.
        Completion (case um_file_contents user_msg of
                      None \<Rightarrow> ''no attachment''
                    | Some fs \<Rightarrow> concat (map file_path fs)))"

definition backward_world :: world where
  "backward_world = demo_world\<lparr>clock := (\<lambda>n. 1000 - int n)\<rparr>"

definition demo_dated_store :: world where
  "demo_dated_store = demo_store\<lparr>db_sessions := take 2 (db_sessions demo_store)\<rparr>"

section \<open>Properties\<close>

subsection \<open>The chat endpoint with the credential configured\<close>

lemma chat_stream_configured:
  assumes "environ ''EMERGENT_LLM_KEY'' = Some key" and "key \<noteq> []"
  shows "chat_stream environ send_message request w =
     (case generate send_message (new_chat key (req_session_id request))
                (new_user_msg (req_message request)
                   (prepare_attachments (req_files request) (db_files w))) request
                (after_user_message request w) of
           (frames, w5) \<Rightarrow> (Inr frames, w5))"
  using assms
  by (simp add: chat_stream_def new_Message_def uuid4_def now_utc_def insert_one_def
      prepare_for_mongo_def user_doc_def after_user_message_def Let_def)

lemma generate_Completion:
  assumes "send_message chat user_msg = Completion response"
  shows "generate send_message chat user_msg request (after_user_message request w) =
     ([Data [(''content'', JString response), (''done'', JBool True)]],
      (after_user_message request w)
        \<lparr>uuid_draws := Suc (Suc (uuid_draws w)),
         clock_reads := Suc (Suc (Suc (clock_reads w))),
         db_messages := db_messages w @ [user_doc request w, assistant_doc request response w]\<rparr>)"
  using assms
  by (simp add: generate_def new_Message_def uuid4_def now_utc_def insert_one_def
      prepare_for_mongo_def assistant_doc_def after_user_message_def)

lemma generate_Raises:
  assumes "send_message chat user_msg = Raises e"
  shows "generate send_message chat user_msg request w = ([Data [(''error'', JString e)]], w)"
  using assms by (simp add: generate_def)

text \<open>
  Claim C1. When the credential is configured, the request lists no files
  (\<^verbatim>\<open>files: []\<close>) and the completion service returns a text, the chat endpoint appends to
  the message collection exactly two documents, first the user message with the request's
  text and then the assistant message with the completion, and the stream is the single
  frame \<^verbatim>\<open>{"content": completion, "done": true}\<close>.
\<close>

theorem chat_stream_success:
  assumes "environ ''EMERGENT_LLM_KEY'' = Some key" and "key \<noteq> []"
    and "req_files request = Some []"
    and "send_message (new_chat key (req_session_id request))
           \<lparr>um_text = req_message request, um_file_contents = None\<rparr> = Completion completion"
  shows "fst (chat_stream environ send_message request w) =
           Inr [Data [(''content'', JString completion), (''done'', JBool True)]]
       \<and> db_messages (snd (chat_stream environ send_message request w)) =
           db_messages w @ [user_doc request w, assistant_doc request completion w]
       \<and> role (user_doc request w) = ''user''
       \<and> content (user_doc request w) = req_message request
       \<and> role (assistant_doc request completion w) = ''assistant''
       \<and> content (assistant_doc request completion w) = completion"
proof -
  have att: "prepare_attachments (req_files request) (db_files w) = []"
    using assms(3) by (simp add: prepare_attachments_def)
  have um: "new_user_msg (req_message request) [] =
      \<lparr>um_text = req_message request, um_file_contents = None\<rparr>"
    by (simp add: new_user_msg_def)
  show ?thesis
    using assms(4)
    by (simp add: chat_stream_configured [of environ key, OF assms(1,2)] att um generate_Completion
        user_doc_def assistant_doc_def)
qed

theorem chat_stream_success_witness:
  "demo_env ''EMERGENT_LLM_KEY'' = Some ''secret'' \<and> ''secret'' \<noteq> []
   \<and> req_files (demo_request (Some [])) = Some []
   \<and> fst (chat_stream demo_env (demo_llm (Completion ''hi there'')) (demo_request (Some []))
             (snd (create_session demo_world))) =
         Inr [Data [(''content'', JString ''hi there''), (''done'', JBool True)]]
   \<and> map (\<lambda>m. (msg_session_id m, role m, content m))
         (db_messages (snd (chat_stream demo_env (demo_llm (Completion ''hi there''))
                              (demo_request (Some [])) (snd (create_session demo_world))))) =
         [(''u'', ''user'', ''hello''), (''u'', ''assistant'', ''hi there'')]"
proof -
  have h1: "demo_env ''EMERGENT_LLM_KEY'' = Some ''secret''"
    by (simp add: demo_env_def)
  have h2: "''secret'' \<noteq> []"
    by simp
  have h3: "req_files (demo_request (Some [])) = Some []"
    by (simp add: demo_request_def)
  have h4: "demo_llm (Completion ''hi there'')
              (new_chat ''secret'' (req_session_id (demo_request (Some []))))
              \<lparr>um_text = req_message (demo_request (Some [])), um_file_contents = None\<rparr> =
            Completion ''hi there''"
    by (simp add: demo_llm_def)
  have empty: "db_messages (snd (create_session demo_world)) = []"
    by (simp add: create_session_def uuid4_def now_utc_def demo_world_def Let_def)
  note c = chat_stream_success [where environ = demo_env and key = "''secret''"
      and request = "demo_request (Some [])" and send_message = "demo_llm (Completion ''hi there'')"
      and completion = "''hi there''" and w = "snd (create_session demo_world)", OF h1 h2 h3 h4]
  show ?thesis
    using h1 h3 c by (simp add: empty user_doc_def assistant_doc_def demo_request_def)
qed

text \<open>
  Claim C2. When the completion service raises, the user message stays the one document
  the request has appended, no assistant message is stored, and the stream is the single
  frame \<^verbatim>\<open>{"error": str(e)}\<close>.
\<close>

theorem chat_stream_failure:
  assumes "environ ''EMERGENT_LLM_KEY'' = Some key" and "key \<noteq> []"
    and "send_message (new_chat key (req_session_id request))
           (new_user_msg (req_message request)
              (prepare_attachments (req_files request) (db_files w))) = Raises e"
  shows "fst (chat_stream environ send_message request w) = Inr [Data [(''error'', JString e)]]
       \<and> db_messages (snd (chat_stream environ send_message request w)) =
           db_messages w @ [user_doc request w]
       \<and> role (user_doc request w) = ''user''
       \<and> content (user_doc request w) = req_message request"
  using assms(3)
  by (simp add: chat_stream_configured [of environ key, OF assms(1,2)] generate_Raises
      after_user_message_def user_doc_def)

theorem chat_stream_failure_witness:
  "demo_env ''EMERGENT_LLM_KEY'' = Some ''secret'' \<and> ''secret'' \<noteq> []
   \<and> fst (chat_stream demo_env (demo_llm (Raises ''upstream down'')) (demo_request (Some []))
             (snd (create_session demo_world))) =
         Inr [Data [(''error'', JString ''upstream down'')]]
   \<and> map (\<lambda>m. (msg_session_id m, role m, content m))
         (db_messages (snd (chat_stream demo_env (demo_llm (Raises ''upstream down''))
                              (demo_request (Some [])) (snd (create_session demo_world))))) =
         [(''u'', ''user'', ''hello'')]"
proof -
  have h1: "demo_env ''EMERGENT_LLM_KEY'' = Some ''secret''"
    by (simp add: demo_env_def)
  have h2: "''secret'' \<noteq> []"
    by simp
  have h3: "demo_llm (Raises ''upstream down'')
              (new_chat ''secret'' (req_session_id (demo_request (Some []))))
              (new_user_msg (req_message (demo_request (Some [])))
                 (prepare_attachments (req_files (demo_request (Some [])))
                    (db_files (snd (create_session demo_world))))) =
            Raises ''upstream down''"
    by (simp add: demo_llm_def)
  have empty: "db_messages (snd (create_session demo_world)) = []"
    by (simp add: create_session_def uuid4_def now_utc_def demo_world_def Let_def)
  note c = chat_stream_failure [where environ = demo_env and key = "''secret''"
      and request = "demo_request (Some [])" and send_message = "demo_llm (Raises ''upstream down'')"
      and e = "''upstream down''" and w = "snd (create_session demo_world)", OF h1 h2 h3]
  show ?thesis
    using h1 c by (simp add: empty user_doc_def demo_request_def)
qed

lemma resolve_files_map_filter:
  "resolve_files acc ids coll =
     acc @ map (\<lambda>d. \<lparr>file_path = path d, mime_type = content_type d\<rparr>)
             (List.map_filter (\<lambda>fid. find_one (\<lambda>d. file_id d = fid) coll) ids)"
  by (induction ids arbitrary: acc) (simp_all add: map_filter_simps split: option.splits)

lemma prepare_attachments_map_filter:
  "prepare_attachments fs coll =
     map (\<lambda>d. \<lparr>file_path = path d, mime_type = content_type d\<rparr>)
       (List.map_filter (\<lambda>fid. find_one (\<lambda>d. file_id d = fid) coll)
          (case fs of None \<Rightarrow> [] | Some ids \<Rightarrow> ids))"
  by (simp add: prepare_attachments_def resolve_files_map_filter map_filter_simps
      split: option.splits)

lemma generate_frames:
  "fst (generate send_message chat user_msg request w) =
     [Data (case send_message chat user_msg of
              Completion c \<Rightarrow> [(''content'', JString c), (''done'', JBool True)]
            | Raises e \<Rightarrow> [(''error'', JString e)])]"
  by (simp add: generate_def split: llm_result.splits prod.splits)

lemma generate_messages:
  "take (length (db_messages w)) (db_messages (snd (generate send_message chat user_msg request w))) =
     db_messages w"
  by (simp add: generate_def new_Message_def uuid4_def now_utc_def insert_one_def
      split: llm_result.splits prod.splits)

text \<open>
  Claim C3. The completion service is called with the chat of the request's session and
  with a message that has the request's text and, as
  its attachments, the path and media type of each listed file id that has a document in
  \<^verbatim>\<open>db.files\<close>, in the order listed; an id with no document adds nothing, and when no id
  resolves the message has no attachments at all. The request is not aborted: the endpoint
  answers with the stream made from the completion service's result on that message. The
  user message stored is the next document of the collection and carries the file-id list
  of the request unchanged.
\<close>

theorem chat_stream_unresolved_files:
  assumes "environ ''EMERGENT_LLM_KEY'' = Some key" and "key \<noteq> []"
  shows "(let resolved =
             map (\<lambda>d. \<lparr>file_path = path d, mime_type = content_type d\<rparr>)
               (List.map_filter (\<lambda>fid. find_one (\<lambda>d. file_id d = fid) (db_files w))
                  (case req_files request of None \<Rightarrow> [] | Some ids \<Rightarrow> ids))
          in fst (chat_stream environ send_message request w) =
               Inr [Data (case send_message
                                 \<lparr>api_key = key, chat_session_id = req_session_id request,
                                  system_message = the_system_message, provider = ''gemini'',
                                  model_name = ''gemini-2.0-flash''\<rparr>
                                 \<lparr>um_text = req_message request,
                                  um_file_contents =
                                    (if resolved = [] then None else Some resolved)\<rparr> of
                            Completion c \<Rightarrow> [(''content'', JString c), (''done'', JBool True)]
                          | Raises e \<Rightarrow> [(''error'', JString e)])])
       \<and> take (Suc (length (db_messages w)))
             (db_messages (snd (chat_stream environ send_message request w))) =
           db_messages w @ [user_doc request w]
       \<and> msg_files (user_doc request w) = req_files request"
proof -
  let ?chat = "new_chat key (req_session_id request)"
  let ?um = "new_user_msg (req_message request)
               (prepare_attachments (req_files request) (db_files w))"
  let ?w4 = "after_user_message request w"
  have cs: "chat_stream environ send_message request w =
      (Inr (fst (generate send_message ?chat ?um request ?w4)),
       snd (generate send_message ?chat ?um request ?w4))"
    by (simp add: chat_stream_configured [of environ key, OF assms] split: prod.splits)
  have um: "?um =
      \<lparr>um_text = req_message request,
       um_file_contents =
         (if map (\<lambda>d. \<lparr>file_path = path d, mime_type = content_type d\<rparr>)
               (List.map_filter (\<lambda>fid. find_one (\<lambda>d. file_id d = fid) (db_files w))
                  (case req_files request of None \<Rightarrow> [] | Some ids \<Rightarrow> ids)) = []
          then None
          else Some (map (\<lambda>d. \<lparr>file_path = path d, mime_type = content_type d\<rparr>)
               (List.map_filter (\<lambda>fid. find_one (\<lambda>d. file_id d = fid) (db_files w))
                  (case req_files request of None \<Rightarrow> [] | Some ids \<Rightarrow> ids))))\<rparr>"
    unfolding new_user_msg_def prepare_attachments_map_filter ..
  have len: "length (db_messages ?w4) = Suc (length (db_messages w))"
    by (simp add: after_user_message_def)
  have "take (length (db_messages ?w4))
          (db_messages (snd (generate send_message ?chat ?um request ?w4))) = db_messages ?w4"
    by (rule generate_messages)
  then have "take (Suc (length (db_messages w)))
      (db_messages (snd (generate send_message ?chat ?um request ?w4))) =
      db_messages w @ [user_doc request w]"
    by (simp add: len) (simp add: after_user_message_def)
  then have msgs: "take (Suc (length (db_messages w)))
      (db_messages (snd (chat_stream environ send_message request w))) =
      db_messages w @ [user_doc request w]"
    by (simp add: cs)
  have frames: "fst (chat_stream environ send_message request w) =
      Inr [Data (case send_message ?chat ?um of
                   Completion c \<Rightarrow> [(''content'', JString c), (''done'', JBool True)]
                 | Raises e \<Rightarrow> [(''error'', JString e)])]"
    by (simp add: cs generate_frames)
  have files: "msg_files (user_doc request w) = req_files request"
    by (simp add: user_doc_def)
  show ?thesis
    unfolding Let_def using frames [unfolded um new_chat_def] msgs files by simp
qed

theorem chat_stream_unresolved_files_witness:
  "demo_env ''EMERGENT_LLM_KEY'' = Some ''secret'' \<and> ''secret'' \<noteq> []
   \<and> fst (chat_stream demo_env demo_echo_llm (demo_request (Some [''f1'', ''missing'']))
             demo_store) =
       Inr [Data [(''content'', JString ''uploads/f1.txt''), (''done'', JBool True)]]
   \<and> fst (chat_stream demo_env demo_echo_llm (demo_request (Some [''missing''])) demo_store) =
       Inr [Data [(''content'', JString ''no attachment''), (''done'', JBool True)]]
   \<and> map msg_files
         (drop 3 (db_messages (snd (chat_stream demo_env demo_echo_llm
                                      (demo_request (Some [''f1'', ''missing''])) demo_store)))) =
       [Some [''f1'', ''missing''], None]"
proof -
  have h1: "demo_env ''EMERGENT_LLM_KEY'' = Some ''secret''"
    by (simp add: demo_env_def)
  have h2: "''secret'' \<noteq> []"
    by simp
  note c = chat_stream_unresolved_files [where environ = demo_env and key = "''secret''"
      and send_message = demo_echo_llm and w = demo_store, OF h1 h2]
  have one: "fst (chat_stream demo_env demo_echo_llm (demo_request (Some [''f1'', ''missing'']))
             demo_store) =
       Inr [Data [(''content'', JString ''uploads/f1.txt''), (''done'', JBool True)]]"
    using c [of "demo_request (Some [''f1'', ''missing''])"]
    by (simp add: Let_def demo_request_def demo_store_def demo_world_def find_one_def
        map_filter_simps demo_echo_llm_def)
  have none: "fst (chat_stream demo_env demo_echo_llm (demo_request (Some [''missing'']))
             demo_store) =
       Inr [Data [(''content'', JString ''no attachment''), (''done'', JBool True)]]"
    using c [of "demo_request (Some [''missing''])"]
    by (simp add: Let_def demo_request_def demo_store_def demo_world_def find_one_def
        map_filter_simps demo_echo_llm_def)
  have files: "map msg_files
         (drop 3 (db_messages (snd (chat_stream demo_env demo_echo_llm
                                      (demo_request (Some [''f1'', ''missing''])) demo_store)))) =
       [Some [''f1'', ''missing''], None]"
    by (simp add: chat_stream_configured [of demo_env "''secret''", OF h1 h2] case_prod_beta
        generate_def new_Message_def uuid4_def now_utc_def insert_one_def prepare_for_mongo_def
        after_user_message_def demo_echo_llm_def demo_store_def demo_world_def
        demo_request_def user_doc_def)
  show ?thesis
    using h1 one none files by simp
qed

subsection \<open>The chat endpoint without the credential\<close>

text \<open>
  Claim C4. When \<^verbatim>\<open>EMERGENT_LLM_KEY\<close> is absent from the environment, every chat request
  fails with an \<^verbatim>\<open>HTTPException\<close> of status 500 and leaves the world as it was. The process
  starts as it would with the variable set, and every other route answers as it would with
  the variable set.
\<close>

theorem chat_stream_without_credential:
  assumes "environ ''EMERGENT_LLM_KEY'' = None"
  shows "(\<exists>d. chat_stream environ send_message request w = (Inl (HTTPException 500 d), w))
       \<and> (\<exists>d. route environ send_message (PostChatStream request) w =
                 (Inl (HTTPException 500 d), w))
       \<and> startup uri_ok name_ok environ =
           startup uri_ok name_ok (environ(''EMERGENT_LLM_KEY'' \<mapsto> key))
       \<and> ((\<forall>cr. r \<noteq> PostChatStream cr) \<longrightarrow>
            route environ send_message r w =
            route (environ(''EMERGENT_LLM_KEY'' \<mapsto> key)) send_message r w)"
proof -
  have cs: "chat_stream environ send_message request w = (Inl api_key_not_configured, w)"
    using assms by (simp add: chat_stream_def)
  have st: "startup uri_ok name_ok environ =
      startup uri_ok name_ok (environ(''EMERGENT_LLM_KEY'' \<mapsto> key))"
    by (simp add: startup_def split: option.splits)
  have rt: "(\<forall>cr. r \<noteq> PostChatStream cr) \<longrightarrow>
            route environ send_message r w =
            route (environ(''EMERGENT_LLM_KEY'' \<mapsto> key)) send_message r w"
    by (cases r) simp_all
  show ?thesis
    using st rt by (simp add: cs api_key_not_configured_def)
qed

theorem chat_stream_without_credential_witness:
  "(demo_env(''EMERGENT_LLM_KEY'' := None)) ''EMERGENT_LLM_KEY'' = None
   \<and> chat_stream (demo_env(''EMERGENT_LLM_KEY'' := None)) (demo_llm (Completion ''hi there''))
        (demo_request None) demo_store =
       (Inl (HTTPException 500 (Str (HTTPException 500 (Text ''API key not configured'')))),
        demo_store)
   \<and> startup (\<lambda>url. url \<noteq> []) (\<lambda>name. name \<noteq> []) (demo_env(''EMERGENT_LLM_KEY'' := None)) =
       Inr \<lparr>mongo_url = ''mongodb://localhost'', db_name = ''chat'', allow_origins = [''*'']\<rparr>
   \<and> route (demo_env(''EMERGENT_LLM_KEY'' := None)) (demo_llm (Completion ''hi there''))
        (GetMessages ''s2'') demo_store =
       route demo_env (demo_llm (Completion ''hi there'')) (GetMessages ''s2'') demo_store"
proof -
  let ?env = "demo_env(''EMERGENT_LLM_KEY'' := None)"
  have h: "?env ''EMERGENT_LLM_KEY'' = None"
    by simp
  have full: "?env(''EMERGENT_LLM_KEY'' \<mapsto> ''secret'') = demo_env"
    by (rule ext) (simp add: demo_env_def)
  note c = chat_stream_without_credential [where environ = ?env
      and send_message = "demo_llm (Completion ''hi there'')" and request = "demo_request None"
      and w = demo_store and key = "''secret''" and r = "GetMessages ''s2''", OF h]
  have a: "chat_stream ?env (demo_llm (Completion ''hi there'')) (demo_request None) demo_store =
       (Inl (HTTPException 500 (Str (HTTPException 500 (Text ''API key not configured'')))),
        demo_store)"
    by (simp add: chat_stream_def api_key_not_configured_def)
  have b: "startup (\<lambda>url. url \<noteq> []) (\<lambda>name. name \<noteq> []) ?env =
       Inr \<lparr>mongo_url = ''mongodb://localhost'', db_name = ''chat'', allow_origins = [''*'']\<rparr>"
    by (simp add: startup_def demo_env_def)
  have d: "route ?env (demo_llm (Completion ''hi there'')) (GetMessages ''s2'') demo_store =
       route demo_env (demo_llm (Completion ''hi there'')) (GetMessages ''s2'') demo_store"
    using c by (simp only: full) simp
  show ?thesis
    using a b d by simp
qed

subsection \<open>Listing sessions\<close>

lemma fromisoformat_rank: "fromisoformat s = iso_rank s"
  by (cases s) simp

lemma backfill_one_fields:
  "sess_id (fst (backfill_one doc w)) = sess_id doc"
  "updated_at (fst (backfill_one doc w)) = map_option fromisoformat (updated_at doc)"
  "title (fst (backfill_one doc w)) =
     Some (case title doc of None \<Rightarrow> ''New Chat'' | Some t \<Rightarrow> t)"
  by (simp_all add: backfill_one_def parse_session_from_mongo_def Let_def now_utc_def
      split: option.splits)

lemma backfill_Cons:
  "backfill (doc # docs) w =
     (fst (backfill_one doc w) # fst (backfill docs (snd (backfill_one doc w))),
      snd (backfill docs (snd (backfill_one doc w))))"
  by (simp add: case_prod_beta)

lemma backfill_length: "length (fst (backfill docs w)) = length docs"
  by (induction docs arbitrary: w) (simp_all add: backfill_Cons del: backfill.simps(2))

lemma backfill_updated_at:
  "map updated_at (fst (backfill docs w)) =
     map (\<lambda>d. map_option iso_rank (updated_at d)) docs"
  by (induction docs arbitrary: w)
    (simp_all add: backfill_Cons backfill_one_fields fromisoformat_rank [abs_def]
      del: backfill.simps(2))

lemma sorted_desc_find_sort_desc:
  "sorted_wrt (\<lambda>a b. key b \<le> key a) (find_sort_desc q key n coll)"
proof -
  have "sorted (map key (sort_key key (filter q coll)))"
    by (rule sorted_sort_key)
  then have "sorted_wrt (\<lambda>a b. key a \<le> key b) (sort_key key (filter q coll))"
    by (simp add: sorted_map)
  then have "sorted_wrt (\<lambda>a b. key b \<le> key a) (rev (sort_key key (filter q coll)))"
    by (simp add: sorted_wrt_rev)
  then show ?thesis
    unfolding find_sort_desc_def by (rule sorted_wrt_take)
qed

lemma backfill_sorted:
  "sorted_wrt (\<lambda>a b. b \<le> a)
     (map updated_at
        (fst (backfill
                (find_sort_desc q (\<lambda>s. map_option iso_rank (updated_at s)) n coll) w)))"
proof -
  let ?docs = "find_sort_desc q (\<lambda>s. map_option iso_rank (updated_at s)) n coll"
  have "sorted_wrt (\<lambda>a b. map_option iso_rank (updated_at b) \<le> map_option iso_rank (updated_at a))
          ?docs"
    by (rule sorted_desc_find_sort_desc)
  then have "sorted_wrt (\<lambda>a b. b \<le> a) (map (\<lambda>d. map_option iso_rank (updated_at d)) ?docs)"
    by (simp add: sorted_wrt_map)
  then show ?thesis
    by (simp only: backfill_updated_at)
qed

lemma backfill_titled: "list_all (\<lambda>d. title d \<noteq> None) (fst (backfill docs w))"
  by (induction docs arbitrary: w)
    (simp_all add: backfill_Cons backfill_one_fields del: backfill.simps(2))

lemma validate_ChatSession_titled:
  "title d = Some t \<Longrightarrow>
     \<exists>m. fst (validate_ChatSession d w) = Inr m
        \<and> (\<forall>u. updated_at d = Some u \<longrightarrow> model_updated_at m = u)"
  by (simp add: validate_ChatSession_def case_prod_beta split: option.splits)

lemma validate_sessions_Cons:
  "validate_sessions (d # ds) w =
     ((case fst (validate_ChatSession d w) of
         Inl e \<Rightarrow> Inl e
       | Inr m \<Rightarrow>
           (case fst (validate_sessions ds (snd (validate_ChatSession d w))) of
              Inl e \<Rightarrow> Inl e
            | Inr ms \<Rightarrow> Inr (m # ms))),
      snd (validate_sessions ds (snd (validate_ChatSession d w))))"
  by (simp add: case_prod_beta)

lemma validate_sessions_titled:
  "list_all (\<lambda>d. title d \<noteq> None) ds \<Longrightarrow>
     \<exists>ms. fst (validate_sessions ds w) = Inr ms \<and> length ms = length ds
        \<and> (list_all (\<lambda>d. updated_at d \<noteq> None) ds \<longrightarrow>
             map (\<lambda>m. Some (model_updated_at m)) ms = map updated_at ds)"
proof (induction ds arbitrary: w)
  case Nil
  then show ?case by simp
next
  case (Cons d ds)
  from Cons.prems obtain t where t: "title d = Some t" and rest: "list_all (\<lambda>d. title d \<noteq> None) ds"
    by auto
  from validate_ChatSession_titled [OF t, of w] obtain m
    where m: "fst (validate_ChatSession d w) = Inr m"
      "\<forall>u. updated_at d = Some u \<longrightarrow> model_updated_at m = u"
    by blast
  from Cons.IH [OF rest, of "snd (validate_ChatSession d w)"] obtain ms
    where ms: "fst (validate_sessions ds (snd (validate_ChatSession d w))) = Inr ms"
      "length ms = length ds"
      "list_all (\<lambda>d. updated_at d \<noteq> None) ds \<longrightarrow>
         map (\<lambda>m. Some (model_updated_at m)) ms = map updated_at ds"
    by blast
  have "fst (validate_sessions (d # ds) w) = Inr (m # ms)"
    by (simp add: validate_sessions_Cons m ms del: validate_sessions.simps(2))
  moreover have "length (m # ms) = length (d # ds)"
    using ms(2) by simp
  moreover have "list_all (\<lambda>d. updated_at d \<noteq> None) (d # ds) \<longrightarrow>
      map (\<lambda>m. Some (model_updated_at m)) (m # ms) = map updated_at (d # ds)"
    using m(2) ms(3) by auto
  ultimately show ?case
    by blast
qed

lemma validate_ChatSession_frame:
  "db_sessions (snd (validate_ChatSession d w)) = db_sessions w"
  "db_messages (snd (validate_ChatSession d w)) = db_messages w"
  "db_files (snd (validate_ChatSession d w)) = db_files w"
  by (simp_all add: validate_ChatSession_def case_prod_beta now_utc_def split: option.splits)

lemma validate_sessions_frame:
  "db_sessions (snd (validate_sessions ds w)) = db_sessions w
   \<and> db_messages (snd (validate_sessions ds w)) = db_messages w
   \<and> db_files (snd (validate_sessions ds w)) = db_files w"
  by (induction ds arbitrary: w)
    (simp_all add: validate_sessions_Cons validate_ChatSession_frame
      del: validate_sessions.simps(2))

lemma get_sessions_response_unfold:
  "get_sessions_response w =
     validate_sessions
       (fst (backfill (find_sort_desc (\<lambda>s. True) (\<lambda>s. map_option iso_rank (updated_at s)) 100
                         (db_sessions w)) w))
       (snd (backfill (find_sort_desc (\<lambda>s. True) (\<lambda>s. map_option iso_rank (updated_at s)) 100
                         (db_sessions w)) w))"
  by (simp add: get_sessions_response_def get_sessions_def case_prod_beta)

lemma set_find_sort_desc: "set (find_sort_desc q key n coll) \<subseteq> set coll"
proof -
  have "set (take n (rev (sort_key key (filter q coll)))) \<subseteq> set (rev (sort_key key (filter q coll)))"
    by (rule set_take_subset)
  then show ?thesis
    by (auto simp add: find_sort_desc_def)
qed

text \<open>
  Claim C5, as amended. In every world \<^verbatim>\<open>GET /sessions\<close> serves at most 100 sessions (100,
  or all when there are fewer). When every stored session has \<^verbatim>\<open>updated_at\<close>, the list served
  is in descending order of \<^verbatim>\<open>updated_at\<close>.
\<close>

theorem get_sessions_response_sorted_bounded:
  "\<exists>sessions. fst (get_sessions_response w) = Inr sessions
     \<and> length sessions \<le> 100
     \<and> length sessions = min 100 (length (db_sessions w))
     \<and> (list_all (\<lambda>s. updated_at s \<noteq> None) (db_sessions w) \<longrightarrow>
          sorted_wrt (\<lambda>a b. model_updated_at b \<le> model_updated_at a) sessions)"
proof -
  let ?docs = "find_sort_desc (\<lambda>s. True) (\<lambda>s. map_option iso_rank (updated_at s)) 100
                 (db_sessions w)"
  let ?out = "fst (backfill ?docs w)"
  let ?w1 = "snd (backfill ?docs w)"
  from validate_sessions_titled [OF backfill_titled, of ?docs w ?w1] obtain ms
    where ms: "fst (validate_sessions ?out ?w1) = Inr ms" "length ms = length ?out"
      "list_all (\<lambda>d. updated_at d \<noteq> None) ?out \<longrightarrow>
         map (\<lambda>m. Some (model_updated_at m)) ms = map updated_at ?out"
    by blast
  have res: "fst (get_sessions_response w) = Inr ms"
    by (simp only: get_sessions_response_unfold ms)
  have len: "length ms = min 100 (length (db_sessions w))"
    by (simp add: ms(2) backfill_length find_sort_desc_def min.commute)
  have srt: "sorted_wrt (\<lambda>a b. model_updated_at b \<le> model_updated_at a) ms"
    if all: "list_all (\<lambda>s. updated_at s \<noteq> None) (db_sessions w)"
  proof -
    have "list_all (\<lambda>s. updated_at s \<noteq> None) ?docs"
      using all set_find_sort_desc [of "\<lambda>s. True" "\<lambda>s. map_option iso_rank (updated_at s)" 100
          "db_sessions w"]
      by (auto simp add: list_all_iff)
    then have "list_all (\<lambda>x. x \<noteq> None) (map (\<lambda>d. map_option iso_rank (updated_at d)) ?docs)"
      by (simp add: list_all_iff)
    then have "list_all (\<lambda>x. x \<noteq> None) (map updated_at ?out)"
      by (simp only: backfill_updated_at)
    then have "list_all (\<lambda>d. updated_at d \<noteq> None) ?out"
      by (simp add: list_all_iff)
    with ms(3) have eq: "map (\<lambda>m. Some (model_updated_at m)) ms = map updated_at ?out"
      by blast
    have "sorted_wrt (\<lambda>a b. b \<le> a) (map updated_at ?out)"
      by (rule backfill_sorted)
    then have "sorted_wrt (\<lambda>a b. b \<le> a) (map (\<lambda>m. Some (model_updated_at m)) ms)"
      by (simp only: eq)
    then show ?thesis
      by (simp add: sorted_wrt_map)
  qed
  show ?thesis
    using res len srt by (intro exI [of _ ms]) simp
qed

theorem get_sessions_response_sorted_bounded_witness:
  "list_all (\<lambda>s. updated_at s \<noteq> None) (db_sessions demo_dated_store)
   \<and> fst (get_sessions_response demo_dated_store) =
     Inr [\<lparr>model_id = ''s2'', model_title = ''New Chat'', model_created_at = 300,
           model_updated_at = 300\<rparr>,
          \<lparr>model_id = ''s1'', model_title = ''First'', model_created_at = 100,
           model_updated_at = 200\<rparr>]
   \<and> sorted_wrt (\<lambda>a b. model_updated_at b \<le> model_updated_at a)
         [\<lparr>model_id = ''s2'', model_title = ''New Chat'', model_created_at = 300,
           model_updated_at = 300\<rparr>,
          \<lparr>model_id = ''s1'', model_title = ''First'', model_created_at = 100,
           model_updated_at = 200\<rparr>]"
proof -
  have h: "list_all (\<lambda>s. updated_at s \<noteq> None) (db_sessions demo_dated_store)"
    by (simp add: demo_dated_store_def demo_store_def demo_world_def)
  have run: "fst (get_sessions_response demo_dated_store) =
     Inr [\<lparr>model_id = ''s2'', model_title = ''New Chat'', model_created_at = 300,
           model_updated_at = 300\<rparr>,
          \<lparr>model_id = ''s1'', model_title = ''First'', model_created_at = 100,
           model_updated_at = 200\<rparr>]"
    by (simp add: get_sessions_response_def get_sessions_def find_sort_desc_def
        demo_dated_store_def demo_store_def demo_world_def backfill_one_def
        validate_ChatSession_def parse_session_from_mongo_def now_utc_def Let_def)
  from get_sessions_response_sorted_bounded [of demo_dated_store] h obtain sessions
    where "fst (get_sessions_response demo_dated_store) = Inr sessions"
      and "sorted_wrt (\<lambda>a b. model_updated_at b \<le> model_updated_at a) sessions"
    by blast
  with run h show ?thesis
    by simp
qed

text \<open>
  The claim as stated fails on a store with a session that has no \<^verbatim>\<open>updated_at\<close>: the
  query puts that session last, and the validation of the response gives it the time of the
  request, which is after the \<^verbatim>\<open>updated_at\<close> of the sessions served before it.
\<close>

theorem get_sessions_response_unsorted:
  "fst (get_sessions_response demo_store) =
     Inr [\<lparr>model_id = ''s2'', model_title = ''New Chat'', model_created_at = 300,
           model_updated_at = 300\<rparr>,
          \<lparr>model_id = ''s1'', model_title = ''First'', model_created_at = 100,
           model_updated_at = 200\<rparr>,
          \<lparr>model_id = ''s3'', model_title = ''New Chat'', model_created_at = 1001,
           model_updated_at = 1002\<rparr>]
   \<and> \<not> sorted (rev (map model_updated_at
         [\<lparr>model_id = ''s2'', model_title = ''New Chat'', model_created_at = 300,
           model_updated_at = 300\<rparr>,
          \<lparr>model_id = ''s1'', model_title = ''First'', model_created_at = 100,
           model_updated_at = 200\<rparr>,
          \<lparr>model_id = ''s3'', model_title = ''New Chat'', model_created_at = 1001,
           model_updated_at = 1002\<rparr>]))"
  by (simp add: get_sessions_response_def get_sessions_def find_sort_desc_def
      demo_store_def demo_world_def backfill_one_def validate_ChatSession_def
      parse_session_from_mongo_def now_utc_def Let_def)

subsection \<open>Listing messages\<close>

lemma map_timestamp_parse:
  "map timestamp (map parse_from_mongo docs) = map (\<lambda>m. iso_rank (timestamp m)) docs"
  by (simp add: parse_from_mongo_def fromisoformat_rank)

lemma sorted_find_sort_asc: "sorted (map key (find_sort_asc q key n coll))"
proof -
  have "sorted (map key (sort_key key (filter q coll)))"
    by (rule sorted_sort_key)
  then have "sorted (take n (map key (sort_key key (filter q coll))))"
    by (rule sorted_wrt_take)
  then show ?thesis
    by (simp add: find_sort_asc_def take_map)
qed

lemma set_find_sort_asc: "set (find_sort_asc q key n coll) \<subseteq> {d \<in> set coll. q d}"
proof -
  have "set (take n (sort_key key (filter q coll))) \<subseteq> set (sort_key key (filter q coll))"
    by (rule set_take_subset)
  then show ?thesis
    by (simp add: find_sort_asc_def)
qed

text \<open>
  Claim C6. For every session id and every world, \<^verbatim>\<open>get_messages\<close> returns at most 1000
  messages, all of that session and all read from the collection, in ascending order of
  \<^verbatim>\<open>timestamp\<close>. The list has 1000 entries, or all the session's messages when there are
  fewer.
\<close>

theorem get_messages_sorted_bounded:
  "\<exists>messages. fst (get_messages session_id w) = Inr messages
     \<and> sorted (map timestamp messages)
     \<and> length messages \<le> 1000
     \<and> length messages =
         min 1000 (length (filter (\<lambda>m. msg_session_id m = session_id) (db_messages w)))
     \<and> (\<forall>m \<in> set messages.
           msg_session_id m = session_id \<and> m \<in> parse_from_mongo ` set (db_messages w))"
proof -
  let ?docs = "find_sort_asc (\<lambda>m. msg_session_id m = session_id) (\<lambda>m. iso_rank (timestamp m))
                 1000 (db_messages w)"
  have res: "fst (get_messages session_id w) = Inr (map parse_from_mongo ?docs)"
    by (simp add: get_messages_def)
  have srt: "sorted (map timestamp (map parse_from_mongo ?docs))"
    unfolding map_timestamp_parse by (rule sorted_find_sort_asc)
  have len: "length (map parse_from_mongo ?docs) =
      min 1000 (length (filter (\<lambda>m. msg_session_id m = session_id) (db_messages w)))"
    by (simp add: find_sort_asc_def min.commute)
  have sub: "set ?docs \<subseteq> {d \<in> set (db_messages w). msg_session_id d = session_id}"
    by (rule set_find_sort_asc)
  have mem: "\<forall>m \<in> set (map parse_from_mongo ?docs).
      msg_session_id m = session_id \<and> m \<in> parse_from_mongo ` set (db_messages w)"
    using sub by (auto simp add: parse_from_mongo_def)
  show ?thesis
    using res srt len mem by (intro exI [of _ "map parse_from_mongo ?docs"]) simp
qed

theorem get_messages_sorted_bounded_witness:
  "fst (get_messages ''s1'' demo_store) =
     Inr [\<lparr>msg_id = ''m3'', msg_session_id = ''s1'', role = ''user'', content = ''earlier'',
           timestamp = 150, msg_files = None\<rparr>,
          \<lparr>msg_id = ''m1'', msg_session_id = ''s1'', role = ''user'', content = ''later'',
           timestamp = 250, msg_files = None\<rparr>]
   \<and> sorted (map timestamp
         [\<lparr>msg_id = ''m3'', msg_session_id = ''s1'', role = ''user'', content = ''earlier'',
           timestamp = 150::int, msg_files = None\<rparr>,
          \<lparr>msg_id = ''m1'', msg_session_id = ''s1'', role = ''user'', content = ''later'',
           timestamp = 250, msg_files = None\<rparr>])"
proof -
  have run: "fst (get_messages ''s1'' demo_store) =
     Inr [\<lparr>msg_id = ''m3'', msg_session_id = ''s1'', role = ''user'', content = ''earlier'',
           timestamp = 150, msg_files = None\<rparr>,
          \<lparr>msg_id = ''m1'', msg_session_id = ''s1'', role = ''user'', content = ''later'',
           timestamp = 250, msg_files = None\<rparr>]"
    by (simp add: get_messages_def find_sort_asc_def demo_store_def demo_world_def
        parse_from_mongo_def)
  from get_messages_sorted_bounded [of "''s1''" demo_store] obtain messages
    where "fst (get_messages ''s1'' demo_store) = Inr messages"
      and "sorted (map timestamp messages)"
    by blast
  with run show ?thesis
    by simp
qed

subsection \<open>Deleting a session\<close>

lemma delete_one_distinct:
  "distinct (map f coll) \<Longrightarrow> delete_one (\<lambda>d. f d = k) coll = filter (\<lambda>d. f d \<noteq> k) coll"
proof (induction coll)
  case Nil
  then show ?case by simp
next
  case (Cons d coll)
  show ?case
  proof (cases "f d = k")
    case True
    with Cons.prems have "k \<notin> f ` set coll"
      by simp
    then have "\<forall>x \<in> set coll. f x \<noteq> k"
      by blast
    then have "filter (\<lambda>d. f d \<noteq> k) coll = coll"
      by (simp add: filter_id_conv)
    with True show ?thesis
      by simp
  next
    case False
    with Cons show ?thesis
      by simp
  qed
qed

lemma find_one_filter_out: "find_one (\<lambda>d. f d = k) (filter (\<lambda>d. f d \<noteq> k) coll) = None"
  by (simp add: find_one_def find_None_iff)

lemma delete_one_absent: "find_one q coll = None \<Longrightarrow> delete_one q coll = coll"
  by (induction coll) (simp_all add: find_one_def split: if_splits)

text \<open>
  Claim C7. \<^verbatim>\<open>delete_session\<close> always answers \<^verbatim>\<open>{"message": "Session deleted"}\<close>, also when
  no session has the id, and then leaves the sessions as they were. It removes every message
  of the session, so that \<^verbatim>\<open>get_messages\<close> for the id returns the empty list afterwards.
  When the session ids of the collection are distinct (the invariant of the data model),
  no session with the id remains, the other sessions are kept, and deleting a second time
  changes nothing.
\<close>

theorem delete_session_cascades:
  "fst (delete_session session_id w) = Inr [(''message'', JString ''Session deleted'')]
   \<and> db_messages (snd (delete_session session_id w)) =
       filter (\<lambda>m. msg_session_id m \<noteq> session_id) (db_messages w)
   \<and> get_messages session_id (snd (delete_session session_id w)) =
       (Inr [], snd (delete_session session_id w))
   \<and> (find_one (\<lambda>s. sess_id s = session_id) (db_sessions w) = None \<longrightarrow>
        db_sessions (snd (delete_session session_id w)) = db_sessions w)
   \<and> (distinct (map sess_id (db_sessions w)) \<longrightarrow>
        db_sessions (snd (delete_session session_id w)) =
          filter (\<lambda>s. sess_id s \<noteq> session_id) (db_sessions w)
      \<and> find_one (\<lambda>s. sess_id s = session_id)
          (db_sessions (snd (delete_session session_id w))) = None
      \<and> delete_session session_id (snd (delete_session session_id w)) =
          delete_session session_id w)"
proof -
  let ?w = "snd (delete_session session_id w)"
  have msg: "db_messages ?w = filter (\<lambda>m. msg_session_id m \<noteq> session_id) (db_messages w)"
    by (simp add: delete_session_def delete_many_def)
  have none: "filter (\<lambda>m. msg_session_id m = session_id) (db_messages ?w) = []"
    unfolding msg by (simp add: filter_empty_conv)
  have get: "get_messages session_id ?w = (Inr [], ?w)"
    by (simp add: get_messages_def find_sort_asc_def none)
  have absent: "find_one (\<lambda>s. sess_id s = session_id) (db_sessions w) = None \<longrightarrow>
      db_sessions ?w = db_sessions w"
    by (simp add: delete_session_def delete_one_absent)
  have unique: "db_sessions ?w = filter (\<lambda>s. sess_id s \<noteq> session_id) (db_sessions w)
      \<and> find_one (\<lambda>s. sess_id s = session_id) (db_sessions ?w) = None
      \<and> delete_session session_id ?w = delete_session session_id w"
    if d: "distinct (map sess_id (db_sessions w))"
  proof -
    have ses: "db_sessions ?w = filter (\<lambda>s. sess_id s \<noteq> session_id) (db_sessions w)"
      using d by (simp add: delete_session_def delete_one_distinct)
    have gone: "find_one (\<lambda>s. sess_id s = session_id) (db_sessions ?w) = None"
      unfolding ses by (rule find_one_filter_out)
    have again: "delete_session session_id ?w = delete_session session_id w"
      using gone by (simp add: delete_session_def delete_one_absent delete_many_def)
    show ?thesis
      using ses gone again by simp
  qed
  have res: "fst (delete_session session_id w) = Inr [(''message'', JString ''Session deleted'')]"
    by (simp add: delete_session_def)
  show ?thesis
    using res msg get absent unique by blast
qed

theorem delete_session_cascades_witness:
  "distinct (map sess_id (db_sessions demo_store))
   \<and> fst (delete_session ''s1'' demo_store) = Inr [(''message'', JString ''Session deleted'')]
   \<and> fst (delete_session ''nobody'' demo_store) = Inr [(''message'', JString ''Session deleted'')]
   \<and> map sess_id (db_sessions (snd (delete_session ''s1'' demo_store))) = [''s2'', ''s3'']
   \<and> map msg_id (db_messages (snd (delete_session ''s1'' demo_store))) = [''m2'']
   \<and> get_messages ''s1'' (snd (delete_session ''s1'' demo_store)) =
       (Inr [], snd (delete_session ''s1'' demo_store))
   \<and> delete_session ''s1'' (snd (delete_session ''s1'' demo_store)) =
       delete_session ''s1'' demo_store"
proof -
  have h: "distinct (map sess_id (db_sessions demo_store))"
    by (simp add: demo_store_def demo_world_def)
  note c = delete_session_cascades [where w = demo_store and session_id = "''s1''"]
  have a: "fst (delete_session ''nobody'' demo_store) =
      Inr [(''message'', JString ''Session deleted'')]"
    by (simp add: delete_session_def)
  have s: "map sess_id (db_sessions (snd (delete_session ''s1'' demo_store))) = [''s2'', ''s3'']"
    using c h by (simp add: demo_store_def demo_world_def)
  have m: "map msg_id (db_messages (snd (delete_session ''s1'' demo_store))) = [''m2'']"
    using c by (simp add: demo_store_def demo_world_def)
  show ?thesis
    using h a s m c by simp
qed

subsection \<open>Touching the session of a chat request\<close>

lemma find_one_append:
  "find_one q coll = None \<Longrightarrow> find_one q (coll @ rest) = find_one q rest"
  by (induction coll) (simp_all add: find_one_def split: if_splits)

lemma update_first_find:
  "find_one q coll \<noteq> None \<Longrightarrow> (\<And>d. q d \<Longrightarrow> q (upd d)) \<Longrightarrow>
     \<exists>d. find_one q coll = Some d \<and> find_one q (update_first q upd coll) = Some (upd d)"
  by (induction coll) (auto simp add: find_one_def)

lemma touch_session_present:
  "\<exists>s. find_one (\<lambda>s. sess_id s = sid) (touch_session sid stamp coll) = Some s
       \<and> updated_at s = Some stamp"
proof (cases "find_one (\<lambda>s. sess_id s = sid) coll = None")
  case True
  then show ?thesis
    by (simp add: touch_session_def update_one_upsert_def insert_one_def find_one_append)
      (simp add: find_one_def)
next
  case False
  then have "\<exists>d. find_one (\<lambda>s. sess_id s = sid) coll = Some d \<and>
      find_one (\<lambda>s. sess_id s = sid)
        (update_first (\<lambda>s. sess_id s = sid) (\<lambda>s. s\<lparr>updated_at := Some stamp\<rparr>) coll) =
      Some (d\<lparr>updated_at := Some stamp\<rparr>)"
    by (rule update_first_find) simp
  with False show ?thesis
    by (auto simp add: touch_session_def update_one_upsert_def)
qed

lemma touch_session_absent:
  "find_one (\<lambda>s. sess_id s = sid) coll = None \<Longrightarrow>
     touch_session sid stamp coll =
       coll @ [\<lparr>sess_id = sid, title = None, created_at = None, updated_at = Some stamp\<rparr>]"
  by (simp add: touch_session_def update_one_upsert_def insert_one_def)

lemma generate_frame:
  "db_sessions (snd (generate send_message chat user_msg request w)) = db_sessions w"
  "set (db_messages w) \<subseteq> set (db_messages (snd (generate send_message chat user_msg request w)))"
  by (auto simp add: generate_def new_Message_def uuid4_def now_utc_def insert_one_def
      split: llm_result.splits prod.splits)

text \<open>
  Claim C8, as amended. After a chat request with the credential configured, the user
  message the request has stored has as its timestamp the first clock reading of the
  request, and the session found under the request's session id has as its \<^verbatim>\<open>updated_at\<close>
  the second reading. So the session's \<^verbatim>\<open>updated_at\<close> is not before the message's timestamp
  exactly when the clock has not been set back between the two readings. When no session
  had that id, the upsert has appended the minimal record, which has the id and
  \<^verbatim>\<open>updated_at\<close> only.
\<close>

theorem chat_stream_touches_session:
  assumes "environ ''EMERGENT_LLM_KEY'' = Some key" and "key \<noteq> []"
  shows "\<exists>s u. find_one (\<lambda>s. sess_id s = req_session_id request)
                  (db_sessions (snd (chat_stream environ send_message request w))) = Some s
       \<and> updated_at s = Some u
       \<and> u = isoformat (clock w (Suc (clock_reads w)))
       \<and> timestamp (user_doc request w) = isoformat (clock w (clock_reads w))
       \<and> (fromisoformat (timestamp (user_doc request w)) \<le> fromisoformat u) =
           (clock w (clock_reads w) \<le> clock w (Suc (clock_reads w)))
       \<and> user_doc request w \<in> set (db_messages (snd (chat_stream environ send_message request w)))
       \<and> msg_session_id (user_doc request w) = req_session_id request
       \<and> (find_one (\<lambda>s. sess_id s = req_session_id request) (db_sessions w) = None \<longrightarrow>
            db_sessions (snd (chat_stream environ send_message request w)) =
              db_sessions w @
              [\<lparr>sess_id = req_session_id request, title = None, created_at = None,
                updated_at = Some u\<rparr>])"
proof -
  let ?sid = "req_session_id request"
  let ?stamp = "Iso (clock w (Suc (clock_reads w)))"
  let ?w' = "snd (chat_stream environ send_message request w)"
  have ses: "db_sessions ?w' = touch_session ?sid ?stamp (db_sessions w)"
    by (simp add: chat_stream_configured [of environ key, OF assms(1,2)] case_prod_beta
        generate_frame) (simp add: after_user_message_def)
  have "set (db_messages (after_user_message request w)) \<subseteq> set (db_messages ?w')"
    by (simp add: chat_stream_configured [of environ key, OF assms(1,2)] case_prod_beta
        generate_frame)
  then have mem: "user_doc request w \<in> set (db_messages ?w')"
    by (auto simp add: after_user_message_def)
  obtain s where s: "find_one (\<lambda>s. sess_id s = ?sid) (db_sessions ?w') = Some s"
      "updated_at s = Some ?stamp"
    unfolding ses using touch_session_present by blast
  have stamp: "?stamp = isoformat (clock w (Suc (clock_reads w)))"
    by simp
  have ts: "timestamp (user_doc request w) = isoformat (clock w (clock_reads w))"
    by (simp add: user_doc_def)
  have le: "(fromisoformat (timestamp (user_doc request w)) \<le> fromisoformat ?stamp) =
      (clock w (clock_reads w) \<le> clock w (Suc (clock_reads w)))"
    by (simp add: user_doc_def)
  have new: "find_one (\<lambda>s. sess_id s = ?sid) (db_sessions w) = None \<longrightarrow>
      db_sessions ?w' = db_sessions w @
        [\<lparr>sess_id = ?sid, title = None, created_at = None, updated_at = Some ?stamp\<rparr>]"
    unfolding ses by (simp add: touch_session_absent)
  have sid: "msg_session_id (user_doc request w) = ?sid"
    by (simp add: user_doc_def)
  show ?thesis
  proof (intro exI conjI)
    show "find_one (\<lambda>s. sess_id s = ?sid) (db_sessions ?w') = Some s"
      by (rule s(1))
    show "updated_at s = Some ?stamp"
      by (rule s(2))
    show "?stamp = isoformat (clock w (Suc (clock_reads w)))"
      by (rule stamp)
    show "timestamp (user_doc request w) = isoformat (clock w (clock_reads w))"
      by (rule ts)
    show "(fromisoformat (timestamp (user_doc request w)) \<le> fromisoformat ?stamp) =
        (clock w (clock_reads w) \<le> clock w (Suc (clock_reads w)))"
      by (rule le)
    show "user_doc request w \<in> set (db_messages ?w')"
      by (rule mem)
    show "msg_session_id (user_doc request w) = ?sid"
      by (rule sid)
    show "find_one (\<lambda>s. sess_id s = ?sid) (db_sessions w) = None \<longrightarrow>
        db_sessions ?w' = db_sessions w @
          [\<lparr>sess_id = ?sid, title = None, created_at = None, updated_at = Some ?stamp\<rparr>]"
      by (rule new)
  qed
qed

theorem chat_stream_touches_session_witness:
  "demo_env ''EMERGENT_LLM_KEY'' = Some ''secret'' \<and> ''secret'' \<noteq> []
   \<and> (\<exists>s u. find_one (\<lambda>s. sess_id s = ''u'')
                (db_sessions (snd (chat_stream demo_env (demo_llm (Completion ''hi there''))
                                     (demo_request None) demo_world))) = Some s
            \<and> updated_at s = Some u \<and> u = Iso 1001
            \<and> timestamp (user_doc (demo_request None) demo_world) = Iso 1000
            \<and> fromisoformat (timestamp (user_doc (demo_request None) demo_world)) \<le>
                fromisoformat u)
   \<and> db_sessions (snd (chat_stream demo_env (demo_llm (Completion ''hi there''))
                          (demo_request None) demo_world)) =
       [\<lparr>sess_id = ''u'', title = None, created_at = None, updated_at = Some (Iso 1001)\<rparr>]"
proof -
  have h1: "demo_env ''EMERGENT_LLM_KEY'' = Some ''secret''"
    by (simp add: demo_env_def)
  have h2: "''secret'' \<noteq> []"
    by simp
  have fwd: "clock demo_world (clock_reads demo_world) \<le>
      clock demo_world (Suc (clock_reads demo_world))"
    by (simp add: demo_world_def)
  have r: "clock demo_world (clock_reads demo_world) = 1000"
      "clock demo_world (Suc (clock_reads demo_world)) = 1001"
    by (simp_all add: demo_world_def)
  have sid: "req_session_id (demo_request None) = ''u''"
    by (simp add: demo_request_def)
  have absent: "find_one (\<lambda>s. sess_id s = ''u'') (db_sessions demo_world) = None"
    by (simp add: demo_world_def find_one_def)
  from chat_stream_touches_session [where environ = demo_env and key = "''secret''"
      and request = "demo_request None" and send_message = "demo_llm (Completion ''hi there'')"
      and w = demo_world, OF h1 h2]
  obtain s u where su:
      "find_one (\<lambda>s. sess_id s = ''u'')
         (db_sessions (snd (chat_stream demo_env (demo_llm (Completion ''hi there''))
                              (demo_request None) demo_world))) = Some s"
      "updated_at s = Some u" "u = Iso 1001"
      "timestamp (user_doc (demo_request None) demo_world) = Iso 1000"
      "(fromisoformat (timestamp (user_doc (demo_request None) demo_world)) \<le> fromisoformat u) =
         (clock demo_world (clock_reads demo_world) \<le>
          clock demo_world (Suc (clock_reads demo_world)))"
      "db_sessions (snd (chat_stream demo_env (demo_llm (Completion ''hi there''))
                          (demo_request None) demo_world)) =
         db_sessions demo_world @
         [\<lparr>sess_id = ''u'', title = None, created_at = None, updated_at = Some u\<rparr>]"
    unfolding sid r using absent by auto
  have le: "fromisoformat (timestamp (user_doc (demo_request None) demo_world)) \<le> fromisoformat u"
    using su(5) fwd by simp
  have ses: "db_sessions (snd (chat_stream demo_env (demo_llm (Completion ''hi there''))
                          (demo_request None) demo_world)) =
       [\<lparr>sess_id = ''u'', title = None, created_at = None, updated_at = Some (Iso 1001)\<rparr>]"
    using su(6) su(3) by (simp add: demo_world_def)
  have ex: "\<exists>s u. find_one (\<lambda>s. sess_id s = ''u'')
                (db_sessions (snd (chat_stream demo_env (demo_llm (Completion ''hi there''))
                                     (demo_request None) demo_world))) = Some s
            \<and> updated_at s = Some u \<and> u = Iso 1001
            \<and> timestamp (user_doc (demo_request None) demo_world) = Iso 1000
            \<and> fromisoformat (timestamp (user_doc (demo_request None) demo_world)) \<le>
                fromisoformat u"
    using su(1-4) le by blast
  show ?thesis
    using h1 ex ses by simp
qed

text \<open>
  The claim as stated fails when the clock is set back between the two readings: the
  user message is stamped 1000 and the session, touched afterwards, 999.
\<close>

theorem chat_stream_touches_session_clock_set_back:
  "db_messages (snd (chat_stream demo_env (demo_llm (Raises ''upstream down''))
                       (demo_request None) backward_world)) =
     [\<lparr>msg_id = ''u'', msg_session_id = ''u'', role = ''user'', content = ''hello'',
       timestamp = Iso 1000, msg_files = None\<rparr>]
   \<and> db_sessions (snd (chat_stream demo_env (demo_llm (Raises ''upstream down''))
                          (demo_request None) backward_world)) =
     [\<lparr>sess_id = ''u'', title = None, created_at = None, updated_at = Some (Iso 999)\<rparr>]
   \<and> fromisoformat (Iso 999) < fromisoformat (Iso 1000)"
proof -
  have h1: "demo_env ''EMERGENT_LLM_KEY'' = Some ''secret''"
    by (simp add: demo_env_def)
  have h2: "''secret'' \<noteq> []"
    by simp
  show ?thesis
    by (simp add: chat_stream_configured [of demo_env "''secret''", OF h1 h2] generate_Raises
        demo_llm_def)
      (simp add: after_user_message_def user_doc_def backward_world_def demo_world_def
        demo_request_def touch_session_def update_one_upsert_def find_one_def insert_one_def)
qed

subsection \<open>Defaults filled in when sessions are read\<close>

lemma backfill_one_frame:
  "db_sessions (snd (backfill_one doc w)) = db_sessions w"
  "db_messages (snd (backfill_one doc w)) = db_messages w"
  "db_files (snd (backfill_one doc w)) = db_files w"
  "clock (snd (backfill_one doc w)) = clock w"
  "clock_reads w \<le> clock_reads (snd (backfill_one doc w))"
  by (simp_all add: backfill_one_def now_utc_def Let_def)

lemma backfill_frame:
  "db_sessions (snd (backfill docs w)) = db_sessions w
   \<and> db_messages (snd (backfill docs w)) = db_messages w
   \<and> db_files (snd (backfill docs w)) = db_files w
   \<and> clock (snd (backfill docs w)) = clock w
   \<and> clock_reads w \<le> clock_reads (snd (backfill docs w))"
proof (induction docs arbitrary: w)
  case Nil
  then show ?case by simp
next
  case (Cons doc docs)
  have step: "clock_reads w \<le> clock_reads (snd (backfill_one doc w))"
    by (rule backfill_one_frame)
  have rest: "db_sessions (snd (backfill docs (snd (backfill_one doc w)))) = db_sessions w
   \<and> db_messages (snd (backfill docs (snd (backfill_one doc w)))) = db_messages w
   \<and> db_files (snd (backfill docs (snd (backfill_one doc w)))) = db_files w
   \<and> clock (snd (backfill docs (snd (backfill_one doc w)))) = clock w
   \<and> clock_reads (snd (backfill_one doc w)) \<le>
       clock_reads (snd (backfill docs (snd (backfill_one doc w))))"
    using Cons.IH [of "snd (backfill_one doc w)"] by (simp only: backfill_one_frame)
  show ?case
    unfolding backfill_Cons snd_conv using rest step by linarith
qed

lemma backfill_one_created_at:
  "(case created_at doc of
      Some c \<Rightarrow> created_at (fst (backfill_one doc w)) = Some (fromisoformat c)
    | None \<Rightarrow>
        (case updated_at doc of
           Some u \<Rightarrow> created_at (fst (backfill_one doc w)) = Some (fromisoformat u)
         | None \<Rightarrow> created_at (fst (backfill_one doc w)) = Some (clock w (clock_reads w))
                   \<and> clock_reads (snd (backfill_one doc w)) = Suc (clock_reads w)))"
  by (simp add: backfill_one_def parse_session_from_mongo_def now_utc_def Let_def
      split: option.splits)

lemma backfill_all2:
  "lo \<le> clock_reads w \<Longrightarrow>
   list_all2
     (\<lambda>doc session.
        sess_id session = sess_id doc
      \<and> title session = Some (case title doc of None \<Rightarrow> ''New Chat'' | Some t \<Rightarrow> t)
      \<and> updated_at session = map_option fromisoformat (updated_at doc)
      \<and> (case created_at doc of
           Some c \<Rightarrow> created_at session = Some (fromisoformat c)
         | None \<Rightarrow>
             (case updated_at doc of
                Some u \<Rightarrow> created_at session = Some (fromisoformat u)
              | None \<Rightarrow> \<exists>n. lo \<le> n \<and> n < clock_reads (snd (backfill docs w))
                             \<and> created_at session = Some (clock w n))))
     docs (fst (backfill docs w))"
proof (induction docs arbitrary: w)
  case Nil
  then show ?case by simp
next
  case (Cons doc docs)
  let ?w1 = "snd (backfill_one doc w)"
  let ?hi = "clock_reads (snd (backfill docs ?w1))"
  have lo1: "lo \<le> clock_reads ?w1"
    using Cons.prems backfill_one_frame(5) [of w doc] by simp
  have hi: "clock_reads ?w1 \<le> ?hi"
    using backfill_frame [of docs ?w1] by simp
  have head: "(case created_at doc of
      Some c \<Rightarrow> created_at (fst (backfill_one doc w)) = Some (fromisoformat c)
    | None \<Rightarrow>
        (case updated_at doc of
           Some u \<Rightarrow> created_at (fst (backfill_one doc w)) = Some (fromisoformat u)
         | None \<Rightarrow> \<exists>n. lo \<le> n \<and> n < ?hi
                        \<and> created_at (fst (backfill_one doc w)) = Some (clock w n)))"
    using backfill_one_created_at [of doc w] Cons.prems hi
    by (auto split: option.splits)
  from Cons.IH [OF lo1] have tail: "list_all2
     (\<lambda>doc session.
        sess_id session = sess_id doc
      \<and> title session = Some (case title doc of None \<Rightarrow> ''New Chat'' | Some t \<Rightarrow> t)
      \<and> updated_at session = map_option fromisoformat (updated_at doc)
      \<and> (case created_at doc of
           Some c \<Rightarrow> created_at session = Some (fromisoformat c)
         | None \<Rightarrow>
             (case updated_at doc of
                Some u \<Rightarrow> created_at session = Some (fromisoformat u)
              | None \<Rightarrow> \<exists>n. lo \<le> n \<and> n < ?hi \<and> created_at session = Some (clock w n))))
     docs (fst (backfill docs ?w1))"
    by (rule list_all2_mono) (auto simp add: backfill_one_frame split: option.splits)
  show ?case
    unfolding backfill_Cons fst_conv snd_conv using head tail
    by (simp add: backfill_one_fields)
qed

text \<open>
  Claim C9. Each session \<^verbatim>\<open>get_sessions\<close> returns comes from the stored document at the same
  place of the sorted query result: its title is the stored one, or \<^verbatim>\<open>'New Chat'\<close> when the
  document has none; its \<^verbatim>\<open>created_at\<close> is the stored one, or the document's \<^verbatim>\<open>updated_at\<close>
  when it has none, or a reading of the clock taken during the call when both are absent.
  The three collections are the same after the call.
\<close>

theorem get_sessions_backfills_on_read:
  "\<exists>sessions. fst (get_sessions w) = Inr sessions
     \<and> list_all2
         (\<lambda>doc session.
            sess_id session = sess_id doc
          \<and> title session = Some (case title doc of None \<Rightarrow> ''New Chat'' | Some t \<Rightarrow> t)
          \<and> updated_at session = map_option fromisoformat (updated_at doc)
          \<and> (case created_at doc of
               Some c \<Rightarrow> created_at session = Some (fromisoformat c)
             | None \<Rightarrow>
                 (case updated_at doc of
                    Some u \<Rightarrow> created_at session = Some (fromisoformat u)
                  | None \<Rightarrow> \<exists>n. clock_reads w \<le> n \<and> n < clock_reads (snd (get_sessions w))
                                 \<and> created_at session = Some (clock w n))))
         (find_sort_desc (\<lambda>s. True) (\<lambda>s. map_option iso_rank (updated_at s)) 100
            (db_sessions w))
         sessions
     \<and> db_sessions (snd (get_sessions w)) = db_sessions w
     \<and> db_messages (snd (get_sessions w)) = db_messages w
     \<and> db_files (snd (get_sessions w)) = db_files w"
proof -
  let ?docs = "find_sort_desc (\<lambda>s. True) (\<lambda>s. map_option iso_rank (updated_at s)) 100
                 (db_sessions w)"
  have res: "get_sessions w = (Inr (fst (backfill ?docs w)), snd (backfill ?docs w))"
    by (simp add: get_sessions_def case_prod_beta)
  have all2: "list_all2
         (\<lambda>doc session.
            sess_id session = sess_id doc
          \<and> title session = Some (case title doc of None \<Rightarrow> ''New Chat'' | Some t \<Rightarrow> t)
          \<and> updated_at session = map_option fromisoformat (updated_at doc)
          \<and> (case created_at doc of
               Some c \<Rightarrow> created_at session = Some (fromisoformat c)
             | None \<Rightarrow>
                 (case updated_at doc of
                    Some u \<Rightarrow> created_at session = Some (fromisoformat u)
                  | None \<Rightarrow> \<exists>n. clock_reads w \<le> n \<and> n < clock_reads (snd (backfill ?docs w))
                                 \<and> created_at session = Some (clock w n))))
         ?docs (fst (backfill ?docs w))"
    by (rule backfill_all2) simp
  show ?thesis
    unfolding res fst_conv snd_conv using all2 backfill_frame [of ?docs w]
    by (intro exI [of _ "fst (backfill ?docs w)"]) simp
qed

theorem get_sessions_backfills_on_read_witness:
  "fst (get_sessions demo_store) =
     Inr [\<lparr>sess_id = ''s2'', title = Some ''New Chat'', created_at = Some 300,
           updated_at = Some 300\<rparr>,
          \<lparr>sess_id = ''s1'', title = Some ''First'', created_at = Some 100,
           updated_at = Some 200\<rparr>,
          \<lparr>sess_id = ''s3'', title = Some ''New Chat'', created_at = Some 1001,
           updated_at = None\<rparr>]
   \<and> db_sessions (snd (get_sessions demo_store)) = db_sessions demo_store
   \<and> map title (db_sessions (snd (get_sessions demo_store))) = [Some ''First'', None, None]
   \<and> map created_at (db_sessions (snd (get_sessions demo_store))) =
       [Some (Iso 100), None, None]"
proof -
  have run: "fst (get_sessions demo_store) =
     Inr [\<lparr>sess_id = ''s2'', title = Some ''New Chat'', created_at = Some 300,
           updated_at = Some 300\<rparr>,
          \<lparr>sess_id = ''s1'', title = Some ''First'', created_at = Some 100,
           updated_at = Some 200\<rparr>,
          \<lparr>sess_id = ''s3'', title = Some ''New Chat'', created_at = Some 1001,
           updated_at = None\<rparr>]"
    by (simp add: get_sessions_def find_sort_desc_def demo_store_def demo_world_def
        backfill_one_def parse_session_from_mongo_def now_utc_def Let_def)
  from get_sessions_backfills_on_read [of demo_store]
  have same: "db_sessions (snd (get_sessions demo_store)) = db_sessions demo_store"
    by blast
  have stored: "map title (db_sessions demo_store) = [Some ''First'', None, None]"
      "map created_at (db_sessions demo_store) = [Some (Iso 100), None, None]"
    by (simp_all add: demo_store_def demo_world_def)
  show ?thesis
    using run stored by (simp add: same)
qed

subsection \<open>Messages of an unknown session\<close>

text \<open>
  Claim C10. For a session id that no session has and no message refers to,
  \<^verbatim>\<open>get_messages\<close> returns the empty list, not an error, and changes nothing.
\<close>

theorem get_messages_unknown_session:
  assumes "find_one (\<lambda>s. sess_id s = session_id) (db_sessions w) = None"
    and "filter (\<lambda>m. msg_session_id m = session_id) (db_messages w) = []"
  shows "get_messages session_id w = (Inr [], w)
       \<and> route environ send_message (GetMessages session_id) w = (Inr (MessageList []), w)"
  using assms(2) by (simp add: get_messages_def find_sort_asc_def)

theorem get_messages_unknown_session_witness:
  "find_one (\<lambda>s. sess_id s = ''nobody'') (db_sessions demo_store) = None
   \<and> filter (\<lambda>m. msg_session_id m = ''nobody'') (db_messages demo_store) = []
   \<and> get_messages ''nobody'' demo_store = (Inr [], demo_store)
   \<and> route demo_env (demo_llm (Raises ''unused'')) (GetMessages ''nobody'') demo_store =
       (Inr (MessageList []), demo_store)"
proof -
  have h1: "find_one (\<lambda>s. sess_id s = ''nobody'') (db_sessions demo_store) = None"
    by (simp add: demo_store_def demo_world_def find_one_def)
  have h2: "filter (\<lambda>m. msg_session_id m = ''nobody'') (db_messages demo_store) = []"
    by (simp add: demo_store_def demo_world_def)
  from get_messages_unknown_session [OF h1 h2] h1 h2 show ?thesis
    by blast
qed

subsection \<open>The session ids stay distinct\<close>

text \<open>
  Every route keeps the ids of the stored sessions distinct, as long as a new session's
  identifier is not one already stored.
\<close>

lemma get_sessions_response_frame:
  "db_sessions (snd (get_sessions_response w)) = db_sessions w"
  "db_messages (snd (get_sessions_response w)) = db_messages w"
  "db_files (snd (get_sessions_response w)) = db_files w"
  by (simp_all add: get_sessions_response_unfold validate_sessions_frame backfill_frame)

lemma create_session_response_sessions:
  "db_sessions (snd (create_session_response w)) = db_sessions (snd (create_session w))"
  by (simp add: create_session_response_def create_session_def case_prod_beta Let_def
      validate_ChatSession_frame)

lemma update_first_keys:
  "(\<And>d. f (upd d) = f d) \<Longrightarrow> map f (update_first q upd coll) = map f coll"
  by (induction coll) simp_all

lemma touch_session_distinct:
  assumes "distinct (map sess_id coll)"
  shows "distinct (map sess_id (touch_session sid stamp coll))"
proof (cases "find_one (\<lambda>s. sess_id s = sid) coll = None")
  case True
  then have "sid \<notin> sess_id ` set coll"
    by (auto simp add: find_one_def find_None_iff)
  with assms True show ?thesis
    by (simp add: touch_session_def update_one_upsert_def insert_one_def)
next
  case False
  have "map sess_id (update_first (\<lambda>s. sess_id s = sid) (\<lambda>s. s\<lparr>updated_at := Some stamp\<rparr>) coll) =
      map sess_id coll"
    by (rule update_first_keys) simp
  with assms False show ?thesis
    by (auto simp add: touch_session_def update_one_upsert_def)
qed

lemma set_delete_one: "x \<in> set (delete_one q coll) \<Longrightarrow> x \<in> set coll"
  by (induction coll) (auto split: if_splits)

lemma delete_one_keeps_distinct:
  "distinct (map f coll) \<Longrightarrow> distinct (map f (delete_one q coll))"
  by (induction coll) (auto dest: set_delete_one)

lemma session_ids_stay_distinct:
  assumes "distinct (map sess_id (db_sessions w))"
    and "r = PostSessions \<longrightarrow> uuid_source w (uuid_draws w) \<notin> sess_id ` set (db_sessions w)"
  shows "distinct (map sess_id (db_sessions (snd (route environ send_message r w))))"
proof (cases r)
  case GetRoot
  with assms show ?thesis
    by (simp add: root_def)
next
  case (PostChatStream request)
  show ?thesis
  proof (cases "\<exists>key. environ ''EMERGENT_LLM_KEY'' = Some key \<and> key \<noteq> []")
    case True
    then obtain key where key: "environ ''EMERGENT_LLM_KEY'' = Some key" "key \<noteq> []"
      by blast
    have "db_sessions (snd (chat_stream environ send_message request w)) =
        touch_session (req_session_id request) (Iso (clock w (Suc (clock_reads w))))
          (db_sessions w)"
      by (simp add: chat_stream_configured [of environ key, OF key] case_prod_beta
          generate_frame) (simp add: after_user_message_def)
    with assms(1) PostChatStream show ?thesis
      by (simp add: case_prod_beta touch_session_distinct)
  next
    case False
    then have "chat_stream environ send_message request w = (Inl api_key_not_configured, w)"
      by (auto simp add: chat_stream_def split: option.splits)
    with assms(1) PostChatStream show ?thesis
      by simp
  qed
next
  case GetSessions
  with assms(1) show ?thesis
    by (simp add: case_prod_beta get_sessions_response_frame)
next
  case PostSessions
  with assms show ?thesis
    by (simp add: case_prod_beta create_session_response_sessions)
      (simp add: create_session_def uuid4_def now_utc_def insert_one_def
        prepare_session_for_mongo_def Let_def)
next
  case (GetMessages sid)
  with assms(1) show ?thesis
    by (simp add: get_messages_def)
next
  case (DeleteSession sid)
  with assms(1) show ?thesis
    by (simp add: delete_session_def delete_one_keeps_distinct)
qed

subsection \<open>Stored sessions keep their \<^verbatim>\<open>updated_at\<close>\<close>

text \<open>
  No route stores a session without \<^verbatim>\<open>updated_at\<close>: when every stored session has one, so
  does every stored session afterwards.
\<close>

lemma update_first_all:
  "list_all P coll \<Longrightarrow> (\<And>d. P (upd d)) \<Longrightarrow> list_all P (update_first q upd coll)"
  by (induction coll) simp_all

lemma delete_one_all: "list_all P coll \<Longrightarrow> list_all P (delete_one q coll)"
  by (induction coll) simp_all

lemma touch_session_all:
  "list_all (\<lambda>s. updated_at s \<noteq> None) coll \<Longrightarrow>
     list_all (\<lambda>s. updated_at s \<noteq> None) (touch_session sid stamp coll)"
  by (simp add: touch_session_def update_one_upsert_def insert_one_def update_first_all)

lemma sessions_keep_updated_at:
  assumes "list_all (\<lambda>s. updated_at s \<noteq> None) (db_sessions w)"
  shows "list_all (\<lambda>s. updated_at s \<noteq> None)
           (db_sessions (snd (route environ send_message r w)))"
proof (cases r)
  case GetRoot
  with assms show ?thesis
    by (simp add: root_def)
next
  case (PostChatStream request)
  show ?thesis
  proof (cases "\<exists>key. environ ''EMERGENT_LLM_KEY'' = Some key \<and> key \<noteq> []")
    case True
    then obtain key where key: "environ ''EMERGENT_LLM_KEY'' = Some key" "key \<noteq> []"
      by blast
    have "db_sessions (snd (chat_stream environ send_message request w)) =
        touch_session (req_session_id request) (Iso (clock w (Suc (clock_reads w))))
          (db_sessions w)"
      by (simp add: chat_stream_configured [of environ key, OF key] case_prod_beta
          generate_frame) (simp add: after_user_message_def)
    with PostChatStream show ?thesis
      using touch_session_all [OF assms] by (simp add: case_prod_beta)
  next
    case False
    then have "chat_stream environ send_message request w = (Inl api_key_not_configured, w)"
      by (auto simp add: chat_stream_def split: option.splits)
    with assms PostChatStream show ?thesis
      by simp
  qed
next
  case GetSessions
  with assms show ?thesis
    by (simp add: case_prod_beta get_sessions_response_frame)
next
  case PostSessions
  with assms show ?thesis
    by (simp add: case_prod_beta create_session_response_sessions)
      (simp add: create_session_def uuid4_def now_utc_def insert_one_def
        prepare_session_for_mongo_def Let_def)
next
  case (GetMessages sid)
  with assms show ?thesis
    by (simp add: get_messages_def)
next
  case (DeleteSession sid)
  then show ?thesis
    using delete_one_all [OF assms] by (simp add: delete_session_def)
qed

end
